theory Spec2Isabelle
  imports Main "HOL-Library.Sublist"
begin

section \<open>Python values\<close>

text \<open>
  The tool arguments, the GraphQL variables and the parsed response bodies are JSON-shaped
  Python values. A \<open>dict\<close> is an association list in insertion order with string keys;
  lookups take the first binding of a key. JSON numbers are restricted to integers (the
  tool schemas declare \<open>integer\<close>); Python's \<open>bool\<close> is kept apart from \<open>int\<close> and
  counts as 0 or 1 where the interpreter uses it as a number.

  A Python \<open>str\<close> is a \<open>string\<close>. Text of the source outside ASCII stands here as its
  UTF-8 bytes; the operations the source applies to strings (concatenation, removal of
  \<open>Z\<close>, stripping of \<open>;\<close> and blanks, slicing of the ASCII API token) agree on bytes
  and on code points.
\<close>

datatype pyval =
    VNone
  | VBool bool
  | VInt int
  | VStr string
  | VList "pyval list"
  | VDict "(string \<times> pyval) list"

fun truthy :: "pyval \<Rightarrow> bool" where
  "truthy VNone = False"
| "truthy (VBool b) = b"
| "truthy (VInt i) = (i \<noteq> 0)"
| "truthy (VStr s) = (s \<noteq> [])"
| "truthy (VList xs) = (xs \<noteq> [])"
| "truthy (VDict kvs) = (kvs \<noteq> [])"

fun type_name :: "pyval \<Rightarrow> string" where
  "type_name VNone = ''NoneType''"
| "type_name (VBool b) = ''bool''"
| "type_name (VInt i) = ''int''"
| "type_name (VStr s) = ''str''"
| "type_name (VList xs) = ''list''"
| "type_name (VDict kvs) = ''dict''"

subsection \<open>\<open>str\<close> and \<open>repr\<close>\<close>

definition digit_char :: "nat \<Rightarrow> char" where
  "digit_char d = ''0123456789'' ! (d mod 10)"

fun str_nat :: "nat \<Rightarrow> string" where
  "str_nat n =
     (if n < 10 then [digit_char n] else str_nat (n div 10) @ [digit_char (n mod 10)])"

declare str_nat.simps [simp del]

definition str_int :: "int \<Rightarrow> string" where
  "str_int i = (if i < 0 then CHR ''-'' # str_nat (nat (- i)) else str_nat (nat i))"

definition hex_char :: "nat \<Rightarrow> char" where
  "hex_char d = ''0123456789abcdef'' ! (d mod 16)"

definition quote_char :: char where
  "quote_char = CHR 0x27"

definition dquote_char :: char where
  "dquote_char = CHR 0x22"

definition backslash_char :: char where
  "backslash_char = CHR 0x5C"

definition newline_char :: char where
  "newline_char = CHR 0x0A"

text \<open>\<open>repr\<close> of a \<open>str\<close>: the quote is \<open>"\<close> when the text holds \<open>'\<close> and no \<open>"\<close>,
  else \<open>'\<close>; the quote, the backslash and the ASCII control characters are escaped.\<close>

definition repr_char :: "char \<Rightarrow> char \<Rightarrow> string" where
  "repr_char q c =
     (if c = q \<or> c = backslash_char then [backslash_char, c]
      else if c = CHR 0x09 then [backslash_char, CHR ''t'']
      else if c = newline_char then [backslash_char, CHR ''n'']
      else if c = CHR 0x0D then [backslash_char, CHR ''r'']
      else if (of_char c :: nat) < 32 \<or> c = CHR 0x7F
        then [backslash_char, CHR ''x'', hex_char (of_char c div 16), hex_char (of_char c mod 16)]
      else [c])"

definition repr_str :: "string \<Rightarrow> string" where
  "repr_str s =
     (let q = (if quote_char \<in> set s \<and> dquote_char \<notin> set s then dquote_char else quote_char)
      in [q] @ concat (map (repr_char q) s) @ [q])"

fun py_repr :: "pyval \<Rightarrow> string"
  and py_repr_list :: "pyval list \<Rightarrow> string"
  and py_repr_items :: "(string \<times> pyval) list \<Rightarrow> string" where
  "py_repr VNone = ''None''"
| "py_repr (VBool b) = (if b then ''True'' else ''False'')"
| "py_repr (VInt i) = str_int i"
| "py_repr (VStr s) = repr_str s"
| "py_repr (VList xs) = ''['' @ py_repr_list xs @ '']''"
| "py_repr (VDict kvs) = ''{'' @ py_repr_items kvs @ ''}''"
| "py_repr_list [] = []"
| "py_repr_list [x] = py_repr x"
| "py_repr_list (x # y # ys) = py_repr x @ '', '' @ py_repr_list (y # ys)"
| "py_repr_items [] = []"
| "py_repr_items [(k, v)] = repr_str k @ '': '' @ py_repr v"
| "py_repr_items ((k, v) # kv # kvs) =
     repr_str k @ '': '' @ py_repr v @ '', '' @ py_repr_items (kv # kvs)"

text \<open>\<open>str(v)\<close>, which is also what an f-string field \<open>{v}\<close> inserts.\<close>

definition py_str :: "pyval \<Rightarrow> string" where
  "py_str v = (case v of VStr s \<Rightarrow> s | _ \<Rightarrow> py_repr v)"

subsection \<open>Exceptions\<close>

text \<open>
  The subclasses of \<open>Exception\<close> that the modelled code raises or meets, each with its
  message (\<open>KeyError\<close> with the missing key). \<open>ValueError\<close> and \<open>ConnectionError\<close>
  carry the messages the repository writes; the messages of the interpreter's own errors
  follow CPython's wording and no property below depends on them.
\<close>

datatype pyexn =
    ValueError string
  | ConnectionError string
  | TypeError string
  | AttributeError string
  | KeyError string
  | OverflowError string

fun exn_str :: "pyexn \<Rightarrow> string" where
  "exn_str (ValueError m) = m"
| "exn_str (ConnectionError m) = m"
| "exn_str (TypeError m) = m"
| "exn_str (AttributeError m) = m"
| "exn_str (KeyError k) = repr_str k"
| "exn_str (OverflowError m) = m"

text \<open>Sequencing of steps that may raise: the first exception ends the sequence.\<close>

definition exn_bind :: "pyexn + 'a \<Rightarrow> ('a \<Rightarrow> pyexn + 'b) \<Rightarrow> pyexn + 'b" where
  "exn_bind m f = (case m of Inl e \<Rightarrow> Inl e | Inr x \<Rightarrow> f x)"

subsection \<open>Texts\<close>

text \<open>
  A text is modelled by its UTF-8 encoding, so a character of the text is a run of one
  to four bytes. \<open>units\<close> splits a text into its characters and \<open>codepoint\<close> numbers a
  character. A byte that starts no well-formed run, which the encoding of a text never
  holds, is a character of its own, numbered as the \<open>surrogateescape\<close> handler does.
\<close>

definition continuation :: "char \<Rightarrow> bool" where
  "continuation c = (128 \<le> (of_char c :: nat) \<and> (of_char c :: nat) < 192)"

text \<open>The number of continuation bytes that a first byte announces.\<close>

definition lead_length :: "char \<Rightarrow> nat" where
  "lead_length c =
     (let b = (of_char c :: nat)
      in if 194 \<le> b \<and> b < 224 then 1
         else if 224 \<le> b \<and> b < 240 then 2
         else if 240 \<le> b \<and> b < 245 then 3
         else 0)"

fun units :: "string \<Rightarrow> string list" where
  "units [] = []"
| "units (c # cs) =
     (if length (takeWhile continuation (take (lead_length c) cs)) = lead_length c
      then (c # take (lead_length c) cs) # units (drop (lead_length c) cs)
      else [c] # units cs)"

definition codepoint :: "string \<Rightarrow> nat" where
  "codepoint u =
     (case u of
        [] \<Rightarrow> 0
      | c # cs \<Rightarrow>
          if cs = [] then (if (of_char c :: nat) < 128 then of_char c else 56320 + of_char c)
          else foldl (\<lambda>a x. a * 64 + (of_char x - 128))
                 (of_char c - [192, 224, 240] ! (length cs - 1)) cs)"

definition codepoints :: "string \<Rightarrow> nat list" where
  "codepoints s = map codepoint (units s)"

text \<open>
  The whitespace characters (\<open>str.isspace\<close>, the class \<open>\s\<close> of a regular expression),
  and the decimal digits (category \<open>Nd\<close>, the class \<open>\d\<close>, the digits that \<open>int\<close>
  reads) by the zero of each script: the ten digits of a script are consecutive. Both
  are those of Unicode 14.0, the database of CPython 3.11.
\<close>

definition WHITESPACE :: "nat list" where
  "WHITESPACE =
     [9, 10, 11, 12, 13, 28, 29, 30, 31, 32, 133, 160, 5760, 8192, 8193, 8194, 8195, 8196,
      8197, 8198, 8199, 8200, 8201, 8202, 8232, 8233, 8239, 8287, 12288]"

definition is_whitespace :: "nat \<Rightarrow> bool" where
  "is_whitespace n = (n \<in> set WHITESPACE)"

definition DIGIT_ZEROS :: "nat list" where
  "DIGIT_ZEROS =
     [48, 1632, 1776, 1984, 2406, 2534, 2662, 2790, 2918, 3046, 3174, 3302, 3430, 3558, 3664,
      3792, 3872, 4160, 4240, 6112, 6160, 6470, 6608, 6784, 6800, 6992, 7088, 7232, 7248,
      42528, 43216, 43264, 43472, 43504, 43600, 44016, 65296, 66720, 68912, 69734, 69872,
      69942, 70096, 70384, 70736, 70864, 71248, 71360, 71472, 71904, 72016, 72784, 73040,
      73120, 92768, 92864, 93008, 120782, 120792, 120802, 120812, 120822, 123200, 123632,
      125264, 130032]"

definition decimal :: "nat \<Rightarrow> nat option" where
  "decimal n = map_option (\<lambda>z. n - z) (find (\<lambda>z. z \<le> n \<and> n \<le> z + 9) DIGIT_ZEROS)"

subsection \<open>Operations on values\<close>

definition quoted :: "string \<Rightarrow> string" where
  "quoted s = [quote_char] @ s @ [quote_char]"

definition no_attribute :: "pyval \<Rightarrow> string \<Rightarrow> pyexn" where
  "no_attribute v a =
     AttributeError (quoted (type_name v) @ '' object has no attribute '' @ quoted a)"

text \<open>\<open>v.get(k, d)\<close>\<close>

fun py_get :: "pyval \<Rightarrow> string \<Rightarrow> pyval \<Rightarrow> pyexn + pyval" where
  "py_get (VDict kvs) k d = Inr (case map_of kvs k of None \<Rightarrow> d | Some v \<Rightarrow> v)"
| "py_get v k d = Inl (no_attribute v ''get'')"

text \<open>\<open>v[k]\<close> for a string key \<open>k\<close>\<close>

fun py_getitem :: "pyval \<Rightarrow> string \<Rightarrow> pyexn + pyval" where
  "py_getitem (VDict kvs) k = (case map_of kvs k of None \<Rightarrow> Inl (KeyError k) | Some v \<Rightarrow> Inr v)"
| "py_getitem (VList xs) k = Inl (TypeError ''list indices must be integers or slices, not str'')"
| "py_getitem (VStr s) k = Inl (TypeError ''string indices must be integers'')"
| "py_getitem v k = Inl (TypeError (quoted (type_name v) @ '' object is not subscriptable''))"

fun str_contains :: "string \<Rightarrow> string \<Rightarrow> bool" where
  "str_contains sub [] = (sub = [])"
| "str_contains sub (c # cs) = (prefix sub (c # cs) \<or> str_contains sub cs)"

text \<open>\<open>k in v\<close> for a string \<open>k\<close>: key membership in a dict, element membership in a
  list, substring test on a string.\<close>

fun py_in :: "string \<Rightarrow> pyval \<Rightarrow> pyexn + bool" where
  "py_in k (VDict kvs) = Inr (map_of kvs k \<noteq> None)"
| "py_in k (VList xs) = Inr (VStr k \<in> set xs)"
| "py_in k (VStr s) = Inr (str_contains k s)"
| "py_in k v = Inl (TypeError (''argument of type '' @ quoted (type_name v) @ '' is not iterable''))"

text \<open>The elements a \<open>for\<close> loop over \<open>v\<close> visits.\<close>

fun py_iter :: "pyval \<Rightarrow> pyexn + pyval list" where
  "py_iter (VList xs) = Inr xs"
| "py_iter (VDict kvs) = Inr (map (\<lambda>kv. VStr (fst kv)) kvs)"
| "py_iter (VStr s) = Inr (map VStr (units s))"
| "py_iter v = Inl (TypeError (quoted (type_name v) @ '' object is not iterable''))"

fun py_len :: "pyval \<Rightarrow> pyexn + nat" where
  "py_len (VList xs) = Inr (length xs)"
| "py_len (VDict kvs) = Inr (length kvs)"
| "py_len (VStr s) = Inr (length (units s))"
| "py_len v = Inl (TypeError (''object of type '' @ quoted (type_name v) @ '' has no len()''))"

text \<open>\<open>d[k] = v\<close> on a dict: an existing key keeps its place, a new key goes last.\<close>

fun dict_set :: "(string \<times> pyval) list \<Rightarrow> string \<Rightarrow> pyval \<Rightarrow> (string \<times> pyval) list" where
  "dict_set [] k v = [(k, v)]"
| "dict_set ((k', v') # kvs) k v =
     (if k' = k then (k, v) # kvs else (k', v') # dict_set kvs k v)"

text \<open>\<open>a + b\<close> where \<open>b\<close> is a string: defined for a string \<open>a\<close> only.\<close>

fun py_add_str :: "pyval \<Rightarrow> string \<Rightarrow> pyexn + string" where
  "py_add_str (VStr a) b = Inr (a @ b)"
| "py_add_str (VList xs) b =
     Inl (TypeError (''can only concatenate list (not '' @ [dquote_char] @ ''str'' @ [dquote_char]
        @ '') to list''))"
| "py_add_str v b =
     Inl (TypeError (''unsupported operand type(s) for +: '' @ quoted (type_name v) @ '' and ''
        @ quoted ''str''))"

text \<open>\<open>s.rstrip(cs)\<close> and \<open>s.strip()\<close>\<close>

definition rstrip :: "char list \<Rightarrow> string \<Rightarrow> string" where
  "rstrip cs s = rev (dropWhile (\<lambda>c. c \<in> set cs) (rev s))"

definition is_space :: "string \<Rightarrow> bool" where
  "is_space u = is_whitespace (codepoint u)"

definition strip :: "string \<Rightarrow> string" where
  "strip s = concat (rev (dropWhile is_space (rev (dropWhile is_space (units s)))))"

section \<open>Dates and times\<close>

text \<open>
  \<open>datetime\<close>, \<open>timedelta\<close> and \<open>strptime\<close> belong to the interpreter. They are modelled
  on CPython's reference implementation (\<open>Lib/_pydatetime.py\<close>, \<open>Lib/_strptime.py\<close>):
  a \<open>datetime\<close> holds its calendar fields and an optional UTC offset, arithmetic goes
  through the proleptic Gregorian ordinal of the date. A \<open>timedelta\<close> is its total number
  of microseconds, which is what Python's normalisation of (days, seconds, microseconds)
  makes canonical; an offset is a \<open>timedelta\<close>.
\<close>

type_synonym timedelta = int

record datetime =
  year :: int
  month :: int
  day :: int
  hour :: int
  minute :: int
  second :: int
  microsecond :: int
  tzinfo :: "timedelta option"

definition US_PER_SECOND :: int where
  "US_PER_SECOND = 1000000"

definition US_PER_DAY :: int where
  "US_PER_DAY = 86400000000"

definition MAXORDINAL :: int where
  "MAXORDINAL = 3652059"

definition DAYS_IN_MONTH :: "int list" where
  "DAYS_IN_MONTH = [-1, 31, 28, 31, 30, 31, 30, 31, 31, 30, 31, 30, 31]"

definition DAYS_BEFORE_MONTH :: "int list" where
  "DAYS_BEFORE_MONTH = [-1, 0, 31, 59, 90, 120, 151, 181, 212, 243, 273, 304, 334]"

definition is_leap :: "int \<Rightarrow> bool" where
  "is_leap y = (y mod 4 = 0 \<and> (y mod 100 \<noteq> 0 \<or> y mod 400 = 0))"

definition days_before_year :: "int \<Rightarrow> int" where
  "days_before_year y' = (let y = y' - 1 in y * 365 + y div 4 - y div 100 + y div 400)"

definition days_in_month :: "int \<Rightarrow> int \<Rightarrow> int" where
  "days_in_month y m = (if m = 2 \<and> is_leap y then 29 else DAYS_IN_MONTH ! nat m)"

definition days_before_month :: "int \<Rightarrow> int \<Rightarrow> int" where
  "days_before_month y m = DAYS_BEFORE_MONTH ! nat m + (if m > 2 \<and> is_leap y then 1 else 0)"

definition ymd2ord :: "int \<Rightarrow> int \<Rightarrow> int \<Rightarrow> int" where
  "ymd2ord y m d = days_before_year y + days_before_month y m + d"

text \<open>\<open>_ord2ymd\<close>: the date of an ordinal, by the 400-, 100-, 4- and 1-year cycles and
  the month estimate \<open>(n + 50) >> 5\<close>.\<close>

definition ord2ymd :: "int \<Rightarrow> int \<times> int \<times> int" where
  "ord2ymd n0 =
     (let n = n0 - 1;
          n400 = n div 146097; n = n mod 146097;
          n100 = n div 36524; n = n mod 36524;
          n4 = n div 1461; n = n mod 1461;
          n1 = n div 365; n = n mod 365;
          y = n400 * 400 + 1 + n100 * 100 + n4 * 4 + n1
      in if n1 = 4 \<or> n100 = 4 then (y - 1, 12, 31)
         else
           let leapyear = (n1 = 3 \<and> (n4 \<noteq> 24 \<or> n100 = 3));
               m = (n + 50) div 32;
               preceding = DAYS_BEFORE_MONTH ! nat m + (if m > 2 \<and> leapyear then 1 else 0)
           in if preceding > n
              then (y, m - 1,
                    n - (preceding - (DAYS_IN_MONTH ! nat (m - 1)
                                      + (if m - 1 = 2 \<and> leapyear then 1 else 0))) + 1)
              else (y, m, n - preceding + 1))"

text \<open>The constructor's range checks (\<open>_check_date_fields\<close>, \<open>_check_time_fields\<close>).\<close>

definition valid_datetime :: "datetime \<Rightarrow> bool" where
  "valid_datetime dt =
     (1 \<le> year dt \<and> year dt \<le> 9999 \<and> 1 \<le> month dt \<and> month dt \<le> 12 \<and>
      1 \<le> day dt \<and> day dt \<le> days_in_month (year dt) (month dt) \<and>
      0 \<le> hour dt \<and> hour dt \<le> 23 \<and> 0 \<le> minute dt \<and> minute dt \<le> 59 \<and>
      0 \<le> second dt \<and> second dt \<le> 59 \<and> 0 \<le> microsecond dt \<and> microsecond dt \<le> 999999)"

definition datetime_new :: "int \<Rightarrow> int \<Rightarrow> int \<Rightarrow> int \<Rightarrow> int \<Rightarrow> int \<Rightarrow> pyexn + datetime" where
  "datetime_new y m d H M S =
     (let dt = \<lparr>year = y, month = m, day = d, hour = H, minute = M, second = S,
                microsecond = 0, tzinfo = None\<rparr>
      in if valid_datetime dt then Inr dt else Inl (ValueError ''field out of range''))"

definition toordinal :: "datetime \<Rightarrow> int" where
  "toordinal dt = ymd2ord (year dt) (month dt) (day dt)"

text \<open>The time of day in microseconds, and the whole value as microseconds since the
  start of ordinal 0 in the value's own (local) time.\<close>

definition time_of_day_us :: "datetime \<Rightarrow> int" where
  "time_of_day_us dt =
     (hour dt * 3600 + minute dt * 60 + second dt) * US_PER_SECOND + microsecond dt"

definition to_us :: "datetime \<Rightarrow> int" where
  "to_us dt = toordinal dt * US_PER_DAY + time_of_day_us dt"

text \<open>The \<open>timedelta\<close> constructor refuses a magnitude above 999999999 days.\<close>

definition timedelta_new :: "int \<Rightarrow> pyexn + timedelta" where
  "timedelta_new us =
     (if \<bar>us div US_PER_DAY\<bar> \<le> 999999999 then Inr us
      else Inl (OverflowError ''days must have magnitude <= 999999999''))"

text \<open>\<open>timedelta(minutes=v)\<close>\<close>

fun timedelta_minutes :: "pyval \<Rightarrow> pyexn + timedelta" where
  "timedelta_minutes (VInt n) = timedelta_new (n * 60 * US_PER_SECOND)"
| "timedelta_minutes (VBool b) = timedelta_new ((if b then 1 else 0) * 60 * US_PER_SECOND)"
| "timedelta_minutes v =
     Inl (TypeError (''unsupported type for timedelta minutes component: '' @ type_name v))"

text \<open>\<open>datetime.__add__\<close>: the sum is formed as a \<open>timedelta\<close> from ordinal 0 and split
  again; the offset is kept.\<close>

definition datetime_add :: "datetime \<Rightarrow> timedelta \<Rightarrow> pyexn + datetime" where
  "datetime_add dt td =
     exn_bind (timedelta_new (to_us dt)) (\<lambda>delta0.
     exn_bind (timedelta_new (delta0 + td)) (\<lambda>delta.
       let days = delta div US_PER_DAY;
           seconds = (delta mod US_PER_DAY) div US_PER_SECOND;
           us = delta mod US_PER_SECOND;
           H = seconds div 3600; rem = seconds mod 3600;
           M = rem div 60; S = rem mod 60
       in if 0 < days \<and> days \<le> MAXORDINAL
          then (case ord2ymd days of (y, m, d) \<Rightarrow>
                  Inr \<lparr>year = y, month = m, day = d, hour = H, minute = M, second = S,
                       microsecond = us, tzinfo = tzinfo dt\<rparr>)
          else Inl (OverflowError ''result out of range'')))"

text \<open>\<open>dt - td\<close> is \<open>dt + (-td)\<close>.\<close>

definition datetime_sub_timedelta :: "datetime \<Rightarrow> timedelta \<Rightarrow> pyexn + datetime" where
  "datetime_sub_timedelta dt td = exn_bind (timedelta_new (- td)) (datetime_add dt)"

text \<open>\<open>a - b\<close> for two datetimes.\<close>

definition datetime_sub :: "datetime \<Rightarrow> datetime \<Rightarrow> pyexn + timedelta" where
  "datetime_sub a b =
     exn_bind (timedelta_new (to_us a - to_us b)) (\<lambda>base.
       if tzinfo a = tzinfo b then Inr base
       else (case (tzinfo a, tzinfo b) of
               (Some myoff, Some otoff) \<Rightarrow> timedelta_new (base + otoff - myoff)
             | _ \<Rightarrow> Inl (TypeError ''cannot mix naive and timezone-aware time'')))"

subsection \<open>\<open>isoformat\<close>\<close>

text \<open>\<open>'%0wd' % i\<close>\<close>

definition fmt_d :: "nat \<Rightarrow> int \<Rightarrow> string" where
  "fmt_d w i =
     (if i < 0 then CHR ''-'' # replicate (w - 1 - length (str_nat (nat (- i)))) CHR ''0''
                     @ str_nat (nat (- i))
      else replicate (w - length (str_nat (nat i))) CHR ''0'' @ str_nat (nat i))"

definition format_offset :: "timedelta option \<Rightarrow> string" where
  "format_offset off =
     (case off of
        None \<Rightarrow> []
      | Some o' \<Rightarrow>
          let sign = (if o' < 0 then ''-'' else ''+'');
              a = \<bar>o'\<bar>;
              hh = a div (3600 * US_PER_SECOND);
              r = a mod (3600 * US_PER_SECOND);
              mm = r div (60 * US_PER_SECOND);
              ss = r mod (60 * US_PER_SECOND)
          in sign @ fmt_d 2 hh @ '':'' @ fmt_d 2 mm
             @ (if ss \<noteq> 0
                then '':'' @ fmt_d 2 (ss div US_PER_SECOND)
                     @ (if ss mod US_PER_SECOND \<noteq> 0 then ''.'' @ fmt_d 6 (ss mod US_PER_SECOND)
                        else [])
                else []))"

definition isoformat :: "datetime \<Rightarrow> string" where
  "isoformat dt =
     fmt_d 4 (year dt) @ ''-'' @ fmt_d 2 (month dt) @ ''-'' @ fmt_d 2 (day dt) @ ''T''
     @ fmt_d 2 (hour dt) @ '':'' @ fmt_d 2 (minute dt) @ '':'' @ fmt_d 2 (second dt)
     @ (if microsecond dt \<noteq> 0 then ''.'' @ fmt_d 6 (microsecond dt) else [])
     @ format_offset (tzinfo dt)"

subsection \<open>\<open>strptime\<close>\<close>

text \<open>
  \<open>datetime.strptime\<close> turns the format into a regular expression, compiled to ignore
  case, and matches it at the start of the text: a directive becomes the alternatives
  below (tried in this order, with backtracking), a blank in the format becomes a
  non-empty run of whitespace, any other character stands for itself. Text left over
  after the match, and fields that are no date, are a \<open>ValueError\<close>. The expression
  works on the characters of the text: a class is a range of ASCII characters, as in
  \<open>[0-5]\<close>, or \<open>\d\<close>, any decimal digit.
\<close>

datatype directive = DY | Dm | Dd | DH | DM | DS | DLit char | DWs

datatype cclass = Range char char | Decimal

fun in_class :: "nat \<Rightarrow> cclass \<Rightarrow> bool" where
  "in_class n (Range a b) = ((of_char a :: nat) \<le> n \<and> n \<le> of_char b)"
| "in_class n Decimal = (decimal n \<noteq> None)"

definition digit :: cclass where
  "digit = Decimal"

definition just :: "char \<Rightarrow> cclass" where
  "just c = Range c c"

fun alternatives :: "directive \<Rightarrow> cclass list list" where
  "alternatives DY = [[digit, digit, digit, digit]]"
| "alternatives Dm =
     [[just CHR ''1'', Range CHR ''0'' CHR ''2''], [just CHR ''0'', Range CHR ''1'' CHR ''9''],
      [Range CHR ''1'' CHR ''9'']]"
| "alternatives Dd =
     [[just CHR ''3'', Range CHR ''0'' CHR ''1''], [Range CHR ''1'' CHR ''2'', digit],
      [just CHR ''0'', Range CHR ''1'' CHR ''9''], [Range CHR ''1'' CHR ''9''],
      [just CHR '' '', Range CHR ''1'' CHR ''9'']]"
| "alternatives DH =
     [[just CHR ''2'', Range CHR ''0'' CHR ''3''], [Range CHR ''0'' CHR ''1'', digit], [digit]]"
| "alternatives DM = [[Range CHR ''0'' CHR ''5'', digit], [digit]]"
| "alternatives DS =
     [[just CHR ''6'', Range CHR ''0'' CHR ''1''], [Range CHR ''0'' CHR ''5'', digit], [digit]]"
| "alternatives (DLit c) = []"
| "alternatives DWs = []"

fun match_seq :: "cclass list \<Rightarrow> nat list \<Rightarrow> (nat list \<times> nat list) option" where
  "match_seq [] s = Some ([], s)"
| "match_seq (cl # cls) [] = None"
| "match_seq (cl # cls) (c # cs) =
     (if in_class c cl
      then (case match_seq cls cs of None \<Rightarrow> None | Some (m, r) \<Rightarrow> Some (c # m, r))
      else None)"

text \<open>\<open>int(text)\<close> for the text of a field: decimal digits, after a blank in one
  alternative of \<open>%d\<close>.\<close>

definition int_of_text :: "nat list \<Rightarrow> int" where
  "int_of_text m =
     foldl (\<lambda>a c. a * 10 + int (case decimal c of None \<Rightarrow> 0 | Some v \<Rightarrow> v)) 0
       (filter (\<lambda>c. c \<noteq> 32) m)"

text \<open>A character of the text against a character of the format, ignoring case. The
  formats of this program hold \<open>-\<close>, \<open>:\<close>, \<open>T\<close> and \<open>Z\<close>, which are equal to no
  character outside ASCII when case is ignored.\<close>

definition caseless_eq :: "nat \<Rightarrow> char \<Rightarrow> bool" where
  "caseless_eq x b =
     (let y = (of_char b :: nat)
      in x = y \<or> (65 \<le> x \<and> x \<le> 90 \<and> y = x + 32) \<or> (65 \<le> y \<and> y \<le> 90 \<and> x = y + 32))"

text \<open>The ways one format item can match at the start of \<open>s\<close>, best first: the field's
  value (if the item is a field) and the text after it.\<close>

fun alts :: "directive \<Rightarrow> nat list \<Rightarrow> (int option \<times> nat list) list" where
  "alts (DLit c) s =
     (case s of [] \<Rightarrow> [] | x # r \<Rightarrow> if caseless_eq x c then [(None, r)] else [])"
| "alts DWs s =
     map (\<lambda>k. (None, drop k s)) (rev [1 ..< Suc (length (takeWhile is_whitespace s))])"
| "alts d s =
     List.map_filter
       (\<lambda>alt. case match_seq alt s of None \<Rightarrow> None | Some (m, r) \<Rightarrow> Some (Some (int_of_text m), r))
       (alternatives d)"

text \<open>All matches of a format at the start of \<open>s\<close>, best first: the field values in the
  order of the format, and the text after the match.\<close>

fun regex_match :: "directive list \<Rightarrow> nat list \<Rightarrow> (int list \<times> nat list) list" where
  "regex_match [] s = [([], s)]"
| "regex_match (d # ds) s =
     concat (map (\<lambda>(v, r). map (\<lambda>(vs, r'). ((case v of None \<Rightarrow> vs | Some x \<Rightarrow> x # vs), r'))
                                (regex_match ds r))
                 (alts d s))"

definition strptime :: "string \<Rightarrow> directive list \<Rightarrow> pyexn + datetime" where
  "strptime s fmt =
     (case regex_match fmt (codepoints s) of
        [] \<Rightarrow> Inl (ValueError ''time data does not match format'')
      | (vs, rest) # _ \<Rightarrow>
          if rest \<noteq> [] then Inl (ValueError ''unconverted data remains'')
          else (case vs of
                  [Y, m, d, H, M, S] \<Rightarrow> datetime_new Y m d H M S
                | [Y, m, d, H, M] \<Rightarrow> datetime_new Y m d H M 0
                | _ \<Rightarrow> Inl (ValueError ''time data does not match format'')))"

section \<open>The API client (\<open>rize_client.py\<close>)\<close>

subsection \<open>The world outside\<close>

text \<open>
  Each GraphQL document of the client is a string constant of the source; a document is
  named here by the operation it declares.
\<close>

datatype document =
    TestConnection | GetCurrentUser
  | GetProjects | GetProject | CreateProject | UpdateProject | DeleteProject
  | GetTasks | GetTask | CreateTask | UpdateTask | DeleteTask
  | GetSessions | GetCurrentSession | CreateSession | UpdateSession | DeleteSession
  | StartSessionTimer | StopSessionTimer | ExtendCurrentSession

type_synonym request = "document \<times> pyval"

text \<open>
  What \<open>client.post\<close> followed by \<open>raise_for_status\<close> and \<open>response.json()\<close> can meet:
  \<open>httpx.ConnectTimeout\<close>, another \<open>httpx.RequestError\<close>, any other exception (both
  with their \<open>str\<close>), or a response with its status code, its raw text and the result
  of parsing the body (\<open>Inl\<close> the message of the exception \<open>json()\<close> raises).
\<close>

datatype post_outcome =
    ConnectTimeout
  | RequestError string
  | OtherError string
  | Response int string "string + pyval"

text \<open>
  The environment of a run: the token that \<open>os.getenv\<close> finds, the upstream service as
  a function of the bearer token and the request body, the clock (\<open>datetime.now()\<close> and
  \<open>int(time.time())\<close>), and the interpreter's \<open>datetime.fromisoformat\<close>, whose accepted
  language differs between Python versions (\<open>None\<close> where it raises \<open>ValueError\<close>).
\<close>

record env =
  getenv_token :: "string option"
  post :: "string \<Rightarrow> document \<Rightarrow> pyval \<Rightarrow> post_outcome"
  now :: datetime
  time_time :: int
  fromisoformat :: "string \<Rightarrow> datetime option"

record client =
  api_token :: string

subsection \<open>Messages\<close>

text \<open>In English: The API token is not set (with the hint where to set or generate one).\<close>

definition MSG_TOKEN_MISSING :: string where
  "MSG_TOKEN_MISSING =
     [CHR 0xE2, CHR 0x9D, CHR 0x8C] @ '' Rize API Token '' @
     [CHR 0xE6, CHR 0x9C, CHR 0xAA, CHR 0xE8, CHR 0xAE, CHR 0xBE, CHR 0xE7, CHR 0xBD, CHR 0xAE, CHR 0x0A] @
     [CHR 0xE8, CHR 0xAF, CHR 0xB7, CHR 0xE5, CHR 0x9C, CHR 0xA8] @ ''.env'' @
     [CHR 0xE6, CHR 0x96, CHR 0x87, CHR 0xE4, CHR 0xBB, CHR 0xB6, CHR 0xE4, CHR 0xB8, CHR 0xAD, CHR 0xE8] @
     [CHR 0xAE, CHR 0xBE, CHR 0xE7, CHR 0xBD, CHR 0xAE] @ '': RIZE_API_TOKEN=your_token_here'' @
     [CHR 0x0A, CHR 0xE6, CHR 0x88, CHR 0x96, CHR 0xE5, CHR 0x9C, CHR 0xA8] @ ''Rize'' @
     [CHR 0xE5, CHR 0xBA, CHR 0x94, CHR 0xE7, CHR 0x94, CHR 0xA8, CHR 0xE4, CHR 0xB8, CHR 0xAD, CHR 0xE7] @
     [CHR 0x94, CHR 0x9F, CHR 0xE6, CHR 0x88, CHR 0x90] @
     '': Settings > API > Generate new token''"

text \<open>In English: GraphQL error.\<close>

definition MSG_GRAPHQL :: string where
  "MSG_GRAPHQL =
     ''GraphQL'' @ [CHR 0xE9, CHR 0x94, CHR 0x99, CHR 0xE8, CHR 0xAF, CHR 0xAF] @ '': ''"

text \<open>In English: unknown error, for an entry without a message.\<close>

definition MSG_NO_MESSAGE :: string where
  "MSG_NO_MESSAGE =
     [CHR 0xE6, CHR 0x9C, CHR 0xAA, CHR 0xE7, CHR 0x9F, CHR 0xA5, CHR 0xE9, CHR 0x94, CHR 0x99, CHR 0xE8] @
     [CHR 0xAF, CHR 0xAF]"

text \<open>In English: connecting to the API timed out, check the network.\<close>

definition MSG_TIMEOUT :: string where
  "MSG_TIMEOUT =
     [CHR 0xF0, CHR 0x9F, CHR 0x94, CHR 0x8C] @ '' '' @
     [CHR 0xE8, CHR 0xBF, CHR 0x9E, CHR 0xE6, CHR 0x8E, CHR 0xA5] @ ''Rize API'' @
     [CHR 0xE8, CHR 0xB6, CHR 0x85, CHR 0xE6, CHR 0x97, CHR 0xB6, CHR 0xEF, CHR 0xBC, CHR 0x8C, CHR 0xE8] @
     [CHR 0xAF, CHR 0xB7, CHR 0xE6, CHR 0xA3, CHR 0x80, CHR 0xE6, CHR 0x9F, CHR 0xA5, CHR 0xE7, CHR 0xBD] @
     [CHR 0x91, CHR 0xE7, CHR 0xBB, CHR 0x9C, CHR 0xE8, CHR 0xBF, CHR 0x9E, CHR 0xE6, CHR 0x8E, CHR 0xA5]"

text \<open>In English: API authentication failed, check the token; current token.\<close>

definition MSG_AUTH :: string where
  "MSG_AUTH =
     [CHR 0xF0, CHR 0x9F, CHR 0x94, CHR 0x90] @ '' API'' @
     [CHR 0xE8, CHR 0xAE, CHR 0xA4, CHR 0xE8, CHR 0xAF, CHR 0x81, CHR 0xE5, CHR 0xA4, CHR 0xB1, CHR 0xE8] @
     [CHR 0xB4, CHR 0xA5, CHR 0xEF, CHR 0xBC, CHR 0x8C, CHR 0xE8, CHR 0xAF, CHR 0xB7, CHR 0xE6, CHR 0xA3] @
     [CHR 0x80, CHR 0xE6, CHR 0x9F, CHR 0xA5] @ ''token'' @
     [CHR 0xE6, CHR 0x98, CHR 0xAF, CHR 0xE5, CHR 0x90, CHR 0xA6, CHR 0xE6, CHR 0xAD, CHR 0xA3, CHR 0xE7] @
     [CHR 0xA1, CHR 0xAE, CHR 0x0A, CHR 0xE5, CHR 0xBD, CHR 0x93, CHR 0xE5, CHR 0x89, CHR 0x8D] @
     ''token: ''"

text \<open>In English: API rate limit exceeded, retry later.\<close>

definition MSG_RATE_LIMIT :: string where
  "MSG_RATE_LIMIT =
     [CHR 0xE2, CHR 0x8F, CHR 0xB1, CHR 0xEF, CHR 0xB8, CHR 0x8F] @ '' API'' @
     [CHR 0xE8, CHR 0xAF, CHR 0xB7, CHR 0xE6, CHR 0xB1, CHR 0x82, CHR 0xE9, CHR 0xA2, CHR 0x91, CHR 0xE7] @
     [CHR 0x8E, CHR 0x87, CHR 0xE8, CHR 0xB6, CHR 0x85, CHR 0xE9, CHR 0x99, CHR 0x90, CHR 0xEF, CHR 0xBC] @
     [CHR 0x8C, CHR 0xE8, CHR 0xAF, CHR 0xB7, CHR 0xE7, CHR 0xA8, CHR 0x8D, CHR 0xE5, CHR 0x90, CHR 0x8E] @
     [CHR 0xE9, CHR 0x87, CHR 0x8D, CHR 0xE8, CHR 0xAF, CHR 0x95]"

text \<open>In English: server error (.\<close>

definition MSG_SERVER :: string where
  "MSG_SERVER =
     [CHR 0xF0, CHR 0x9F, CHR 0x94, CHR 0xA5] @ '' Rize'' @
     [CHR 0xE6, CHR 0x9C, CHR 0x8D, CHR 0xE5, CHR 0x8A, CHR 0xA1, CHR 0xE5, CHR 0x99, CHR 0xA8, CHR 0xE9] @
     [CHR 0x94, CHR 0x99, CHR 0xE8, CHR 0xAF, CHR 0xAF] @ '' (''"

text \<open>In English: HTTP error.\<close>

definition MSG_HTTP :: string where
  "MSG_HTTP =
     [CHR 0xE2, CHR 0x9D, CHR 0x8C] @ '' HTTP'' @
     [CHR 0xE9, CHR 0x94, CHR 0x99, CHR 0xE8, CHR 0xAF, CHR 0xAF] @ '' ''"

text \<open>In English: network request failed.\<close>

definition MSG_NETWORK :: string where
  "MSG_NETWORK =
     [CHR 0xF0, CHR 0x9F, CHR 0x9A, CHR 0xAB] @ '' '' @
     [CHR 0xE7, CHR 0xBD, CHR 0x91, CHR 0xE7, CHR 0xBB, CHR 0x9C, CHR 0xE8, CHR 0xAF, CHR 0xB7, CHR 0xE6] @
     [CHR 0xB1, CHR 0x82, CHR 0xE5, CHR 0xA4, CHR 0xB1, CHR 0xE8, CHR 0xB4, CHR 0xA5] @ '': ''"

text \<open>In English: unknown error.\<close>

definition MSG_UNKNOWN :: string where
  "MSG_UNKNOWN =
     [CHR 0xE2, CHR 0x9D, CHR 0x8C] @ '' '' @
     [CHR 0xE6, CHR 0x9C, CHR 0xAA, CHR 0xE7, CHR 0x9F, CHR 0xA5, CHR 0xE9, CHR 0x94, CHR 0x99, CHR 0xE8] @
     [CHR 0xAF, CHR 0xAF] @ '': ''"

subsection \<open>\<open>RizeClient.__init__\<close> and \<open>execute_query\<close>\<close>

definition RizeClient :: "env \<Rightarrow> string option \<Rightarrow> pyexn + client" where
  "RizeClient e api_token_arg =
     (let tok = (case api_token_arg of
                   Some t \<Rightarrow> if t \<noteq> [] then Some t else getenv_token e
                 | None \<Rightarrow> getenv_token e)
      in case tok of
           Some t \<Rightarrow> if t \<noteq> [] then Inr \<lparr>api_token = t\<rparr> else Inl (ValueError MSG_TOKEN_MISSING)
         | None \<Rightarrow> Inl (ValueError MSG_TOKEN_MISSING))"

text \<open>The loop over \<open>result["errors"]\<close>: \<open>error_msg += error.get("message", ...) + "; "\<close>.\<close>

fun add_error_messages :: "pyval list \<Rightarrow> string \<Rightarrow> pyexn + string" where
  "add_error_messages [] error_msg = Inr error_msg"
| "add_error_messages (error # errors) error_msg =
     exn_bind (py_get error ''message'' (VStr MSG_NO_MESSAGE)) (\<lambda>m.
     exn_bind (py_add_str m ''; '') (\<lambda>t.
       add_error_messages errors (error_msg @ t)))"

text \<open>The check for GraphQL errors in the body of \<open>execute_query\<close>: it returns the result
  or raises the \<open>ValueError\<close> with the collected messages.\<close>

definition check_graphql_errors :: "pyval \<Rightarrow> pyexn + pyval" where
  "check_graphql_errors result =
     exn_bind (py_in ''errors'' result) (\<lambda>has_errors.
       if has_errors
       then exn_bind (py_getitem result ''errors'') (\<lambda>errs.
            exn_bind (py_iter errs) (\<lambda>errors.
            exn_bind (add_error_messages errors MSG_GRAPHQL) (\<lambda>error_msg.
              Inl (ValueError (rstrip ''; '' error_msg)))))
       else Inr result)"

text \<open>The token as the authentication failure shows it: \<open>token[:8]...token[-4:]\<close>.\<close>

definition redacted :: "string \<Rightarrow> string" where
  "redacted tok = take 8 tok @ ''...'' @ drop (length tok - 4) tok"

text \<open>
  \<open>execute_query\<close>: one POST, then the classification. The \<open>ValueError\<close> raised for
  GraphQL errors is raised inside the \<open>try\<close>, so the final \<open>except Exception\<close> clause
  catches it and raises it again behind the unknown-error prefix. The second component
  is the list of requests sent.
\<close>

definition execute_query :: "env \<Rightarrow> client \<Rightarrow> document \<Rightarrow> pyval \<Rightarrow> (pyexn + pyval) \<times> request list" where
  "execute_query e self query variables =
     (let request_data = (query, if truthy variables then variables else VDict [])
      in ((case post e (api_token self) (fst request_data) (snd request_data) of
             ConnectTimeout \<Rightarrow> Inl (ConnectionError MSG_TIMEOUT)
           | RequestError m \<Rightarrow> Inl (ConnectionError (MSG_NETWORK @ m))
           | OtherError m \<Rightarrow> Inl (ValueError (MSG_UNKNOWN @ m))
           | Response status_code text json \<Rightarrow>
               if \<not> (200 \<le> status_code \<and> status_code \<le> 299)
               then (if status_code = 401
                       then Inl (ValueError (MSG_AUTH @ redacted (api_token self)))
                     else if status_code = 429 then Inl (ValueError MSG_RATE_LIMIT)
                     else if status_code \<ge> 500
                       then Inl (ConnectionError (MSG_SERVER @ str_int status_code @ '')''))
                     else Inl (ValueError (MSG_HTTP @ str_int status_code @ '': '' @ text)))
               else (case json of
                       Inl m \<Rightarrow> Inl (ValueError (MSG_UNKNOWN @ m))
                     | Inr result \<Rightarrow>
                         (case check_graphql_errors result of
                            Inl ex \<Rightarrow> Inl (ValueError (MSG_UNKNOWN @ exn_str ex))
                          | Inr r \<Rightarrow> Inr r))),
          [request_data]))"

subsection \<open>\<open>parse_time_string\<close>\<close>

definition FORMATS :: "directive list list" where
  "FORMATS =
     [[DY, DLit CHR ''-'', Dm, DLit CHR ''-'', Dd, DLit CHR ''T'', DH, DLit CHR '':'', DM,
       DLit CHR '':'', DS],
      [DY, DLit CHR ''-'', Dm, DLit CHR ''-'', Dd, DWs, DH, DLit CHR '':'', DM,
       DLit CHR '':'', DS],
      [DY, DLit CHR ''-'', Dm, DLit CHR ''-'', Dd, DLit CHR ''T'', DH, DLit CHR '':'', DM],
      [DY, DLit CHR ''-'', Dm, DLit CHR ''-'', Dd, DWs, DH, DLit CHR '':'', DM],
      [DY, DLit CHR ''-'', Dm, DLit CHR ''-'', Dd, DLit CHR ''T'', DH, DLit CHR '':'', DM,
       DLit CHR '':'', DS, DLit CHR ''Z'']]"

text \<open>\<open>time_str.replace('Z', '')\<close>\<close>

definition remove_Z :: "string \<Rightarrow> string" where
  "remove_Z s = filter (\<lambda>c. c \<noteq> CHR ''Z'') s"

text \<open>The loop over the formats: the first format that parses wins, a \<open>ValueError\<close>
  moves on to the next format.\<close>

fun try_formats :: "directive list list \<Rightarrow> string \<Rightarrow> pyexn + datetime option" where
  "try_formats [] z = Inr None"
| "try_formats (fmt # fmts) z =
     (case strptime z fmt of
        Inr dt \<Rightarrow> Inr (Some dt)
      | Inl (ValueError m) \<Rightarrow> try_formats fmts z
      | Inl ex \<Rightarrow> Inl ex)"

definition parse_time_string :: "env \<Rightarrow> pyval \<Rightarrow> pyexn + datetime" where
  "parse_time_string e time_str =
     (case time_str of
        VStr s \<Rightarrow>
          exn_bind (try_formats FORMATS (remove_Z s)) (\<lambda>found.
            case found of
              Some dt \<Rightarrow> Inr dt
            | None \<Rightarrow>
                (case fromisoformat e (remove_Z s) of
                   Some dt \<Rightarrow> Inr dt
                 | None \<Rightarrow> Inl (ValueError (''Cannot parse time string: '' @ s))))
      | _ \<Rightarrow> Inl (no_attribute time_str ''replace''))"

subsection \<open>The operations: from arguments to document and variables\<close>

text \<open>
  An argument is a Python value, \<open>VNone\<close> when it is left out; an argument whose default
  is not \<open>None\<close> is optional here and takes its default through \<open>default\<close>. Each
  function below builds what the operation of the same name hands to \<open>execute_query\<close>:
  the document and the variables (\<open>VNone\<close> when it passes no variables).
\<close>

definition default :: "pyval option \<Rightarrow> pyval \<Rightarrow> pyval" where
  "default a d = (case a of None \<Rightarrow> d | Some v \<Rightarrow> v)"

text \<open>\<open>if v: d[k] = v\<close> and \<open>if v is not None: d[k] = v\<close>\<close>

definition set_if_truthy :: "(string \<times> pyval) list \<Rightarrow> string \<Rightarrow> pyval \<Rightarrow> (string \<times> pyval) list" where
  "set_if_truthy d k v = (if truthy v then dict_set d k v else d)"

definition set_if_not_None :: "(string \<times> pyval) list \<Rightarrow> string \<Rightarrow> pyval \<Rightarrow> (string \<times> pyval) list" where
  "set_if_not_None d k v = (if v \<noteq> VNone then dict_set d k v else d)"

definition test_connection_request :: request where
  "test_connection_request = (TestConnection, VNone)"

definition get_current_user_request :: request where
  "get_current_user_request = (GetCurrentUser, VNone)"

definition get_projects_request :: "pyval option \<Rightarrow> request" where
  "get_projects_request limit = (GetProjects, VDict [(''first'', default limit (VInt 50))])"

definition get_project_request :: "pyval \<Rightarrow> request" where
  "get_project_request project_id = (GetProject, VDict [(''id'', project_id)])"

definition create_project_request ::
  "pyval \<Rightarrow> pyval \<Rightarrow> pyval \<Rightarrow> pyval \<Rightarrow> pyval \<Rightarrow> pyval \<Rightarrow> request" where
  "create_project_request name client_id color emoji time_budget time_budget_interval =
     (let project_input = [(''name'', name)];
          project_input = set_if_truthy project_input ''clientId'' client_id;
          project_input = set_if_truthy project_input ''color'' color;
          project_input = set_if_truthy project_input ''emoji'' emoji;
          project_input = set_if_truthy project_input ''timeBudget'' time_budget;
          project_input = set_if_truthy project_input ''timeBudgetInterval'' time_budget_interval
      in (CreateProject, VDict [(''input'', VDict project_input)]))"

definition update_project_request ::
  "pyval \<Rightarrow> pyval \<Rightarrow> pyval \<Rightarrow> pyval \<Rightarrow> pyval \<Rightarrow> pyval \<Rightarrow> request" where
  "update_project_request project_id name color emoji time_budget time_budget_interval =
     (let project_input = [(''id'', project_id)];
          project_input = set_if_not_None project_input ''name'' name;
          project_input = set_if_not_None project_input ''color'' color;
          project_input = set_if_not_None project_input ''emoji'' emoji;
          project_input = set_if_not_None project_input ''timeBudget'' time_budget;
          project_input = set_if_not_None project_input ''timeBudgetInterval'' time_budget_interval
      in (UpdateProject, VDict [(''input'', VDict project_input)]))"

definition delete_project_request :: "pyval \<Rightarrow> request" where
  "delete_project_request project_id =
     (DeleteProject, VDict [(''input'', VDict [(''id'', project_id)])])"

definition get_tasks_request :: "pyval option \<Rightarrow> pyval \<Rightarrow> request" where
  "get_tasks_request limit project_id =
     (let variables = [(''first'', default limit (VInt 50))];
          variables = set_if_truthy variables ''projectId'' project_id
      in (GetTasks, VDict variables))"

definition get_task_request :: "pyval \<Rightarrow> request" where
  "get_task_request task_id = (GetTask, VDict [(''id'', task_id)])"

definition create_task_request ::
  "pyval \<Rightarrow> pyval \<Rightarrow> pyval \<Rightarrow> pyval \<Rightarrow> pyval \<Rightarrow> pyval \<Rightarrow> pyval \<Rightarrow> request" where
  "create_task_request name project_id assignee_id color emoji time_budget time_budget_interval =
     (let task_input = [(''name'', name)];
          task_input = set_if_truthy task_input ''projectId'' project_id;
          task_input = set_if_truthy task_input ''assigneeId'' assignee_id;
          task_input = set_if_truthy task_input ''color'' color;
          task_input = set_if_truthy task_input ''emoji'' emoji;
          task_input = set_if_truthy task_input ''timeBudget'' time_budget;
          task_input = set_if_truthy task_input ''timeBudgetInterval'' time_budget_interval
      in (CreateTask, VDict [(''input'', VDict task_input)]))"

definition update_task_request ::
  "pyval \<Rightarrow> pyval \<Rightarrow> pyval \<Rightarrow> pyval \<Rightarrow> pyval \<Rightarrow> pyval \<Rightarrow> pyval \<Rightarrow> pyval \<Rightarrow> request" where
  "update_task_request task_id name project_id assignee_id color emoji time_budget
       time_budget_interval =
     (let task_input = [(''id'', task_id)];
          task_input = set_if_not_None task_input ''name'' name;
          task_input = set_if_not_None task_input ''projectId'' project_id;
          task_input = set_if_not_None task_input ''assigneeId'' assignee_id;
          task_input = set_if_not_None task_input ''color'' color;
          task_input = set_if_not_None task_input ''emoji'' emoji;
          task_input = set_if_not_None task_input ''timeBudget'' time_budget;
          task_input = set_if_not_None task_input ''timeBudgetInterval'' time_budget_interval
      in (UpdateTask, VDict [(''input'', VDict task_input)]))"

definition delete_task_request :: "pyval \<Rightarrow> request" where
  "delete_task_request task_id = (DeleteTask, VDict [(''input'', VDict [(''id'', task_id)])])"

definition get_sessions_request :: "pyval option \<Rightarrow> request" where
  "get_sessions_request limit = (GetSessions, VDict [(''first'', default limit (VInt 50))])"

definition get_current_session_request :: request where
  "get_current_session_request = (GetCurrentSession, VNone)"

text \<open>The start and end of the new session, from the four cases of \<open>create_session\<close>.\<close>

definition create_session_window ::
  "env \<Rightarrow> pyval \<Rightarrow> pyval \<Rightarrow> pyval \<Rightarrow> pyexn + (datetime \<times> datetime)" where
  "create_session_window e duration_minutes start_time end_time =
     (if truthy start_time \<and> truthy end_time then
        exn_bind (parse_time_string e start_time) (\<lambda>start_dt.
        exn_bind (parse_time_string e end_time) (\<lambda>end_dt.
          Inr (start_dt, end_dt)))
      else if truthy start_time then
        exn_bind (parse_time_string e start_time) (\<lambda>start_dt.
        exn_bind (timedelta_minutes duration_minutes) (\<lambda>td.
        exn_bind (datetime_add start_dt td) (\<lambda>end_dt.
          Inr (start_dt, end_dt))))
      else if truthy end_time then
        exn_bind (parse_time_string e end_time) (\<lambda>end_dt.
        exn_bind (timedelta_minutes duration_minutes) (\<lambda>td.
        exn_bind (datetime_sub_timedelta end_dt td) (\<lambda>start_dt.
          Inr (start_dt, end_dt))))
      else
        (let start_dt = now e
         in exn_bind (timedelta_minutes duration_minutes) (\<lambda>td.
            exn_bind (datetime_add start_dt td) (\<lambda>end_dt.
              Inr (start_dt, end_dt)))))"

definition create_session_request ::
  "env \<Rightarrow> pyval option \<Rightarrow> pyval \<Rightarrow> pyval \<Rightarrow> pyval option \<Rightarrow> pyval \<Rightarrow> pyval \<Rightarrow> pyexn + request" where
  "create_session_request e session_type title description duration_minutes start_time end_time =
     exn_bind (create_session_window e (default duration_minutes (VInt 90)) start_time end_time)
       (\<lambda>(start_dt, end_dt).
          let session_args = [(''startTime'', VStr (isoformat start_dt @ ''Z'')),
                              (''endTime'', VStr (isoformat end_dt @ ''Z''))];
              session_args = set_if_truthy session_args ''title'' title;
              session_args = set_if_truthy session_args ''description'' description
          in Inr (CreateSession, VDict [(''input'', VDict [(''args'', VDict session_args)])]))"

definition update_session_request :: "pyval \<Rightarrow> pyval \<Rightarrow> pyval \<Rightarrow> request" where
  "update_session_request session_id title description =
     (let session_input = [(''id'', session_id)];
          session_input = set_if_not_None session_input ''title'' title;
          session_input = set_if_not_None session_input ''description'' description
      in (UpdateSession, VDict [(''input'', VDict session_input)]))"

definition delete_session_request :: "pyval \<Rightarrow> request" where
  "delete_session_request session_id =
     (DeleteSession, VDict [(''input'', VDict [(''id'', session_id)])])"

definition start_session_timer_request :: "env \<Rightarrow> pyval option \<Rightarrow> request" where
  "start_session_timer_request e session_type =
     (StartSessionTimer,
      VDict [(''input'',
              VDict [(''clientMutationId'', VStr (''start_timer_'' @ str_int (time_time e)))])])"

definition stop_session_timer_request :: request where
  "stop_session_timer_request = (StopSessionTimer, VDict [(''input'', VDict [])])"

definition extend_current_session_request :: "pyval option \<Rightarrow> request" where
  "extend_current_session_request minutes =
     (ExtendCurrentSession, VDict [(''input'', VDict [(''minutes'', default minutes (VInt 30))])])"

text \<open>The operations with their arguments, and the request each builds.\<close>

datatype operation =
    Get_current_user
  | Get_projects "pyval option"
  | Get_project pyval
  | Create_project pyval pyval pyval pyval pyval pyval
  | Update_project pyval pyval pyval pyval pyval pyval
  | Delete_project pyval
  | Get_tasks "pyval option" pyval
  | Get_task pyval
  | Create_task pyval pyval pyval pyval pyval pyval pyval
  | Update_task pyval pyval pyval pyval pyval pyval pyval pyval
  | Delete_task pyval
  | Get_sessions "pyval option"
  | Get_current_session
  | Create_session "pyval option" pyval pyval "pyval option" pyval pyval
  | Update_session pyval pyval pyval
  | Delete_session pyval
  | Start_session_timer "pyval option"
  | Stop_session_timer
  | Extend_current_session "pyval option"

fun request_of :: "env \<Rightarrow> operation \<Rightarrow> pyexn + request" where
  "request_of e Get_current_user = Inr get_current_user_request"
| "request_of e (Get_projects limit) = Inr (get_projects_request limit)"
| "request_of e (Get_project i) = Inr (get_project_request i)"
| "request_of e (Create_project n c co em tb tbi) = Inr (create_project_request n c co em tb tbi)"
| "request_of e (Update_project i n co em tb tbi) = Inr (update_project_request i n co em tb tbi)"
| "request_of e (Delete_project i) = Inr (delete_project_request i)"
| "request_of e (Get_tasks limit p) = Inr (get_tasks_request limit p)"
| "request_of e (Get_task i) = Inr (get_task_request i)"
| "request_of e (Create_task n p a co em tb tbi) = Inr (create_task_request n p a co em tb tbi)"
| "request_of e (Update_task i n p a co em tb tbi) = Inr (update_task_request i n p a co em tb tbi)"
| "request_of e (Delete_task i) = Inr (delete_task_request i)"
| "request_of e (Get_sessions limit) = Inr (get_sessions_request limit)"
| "request_of e Get_current_session = Inr get_current_session_request"
| "request_of e (Create_session ty t d m st en) = create_session_request e ty t d m st en"
| "request_of e (Update_session i t d) = Inr (update_session_request i t d)"
| "request_of e (Delete_session i) = Inr (delete_session_request i)"
| "request_of e (Start_session_timer ty) = Inr (start_session_timer_request e ty)"
| "request_of e Stop_session_timer = Inr stop_session_timer_request"
| "request_of e (Extend_current_session m) = Inr (extend_current_session_request m)"

text \<open>An operation of the client: build the request, then \<open>execute_query\<close>. An exception
  while building sends nothing.\<close>

definition perform :: "env \<Rightarrow> client \<Rightarrow> operation \<Rightarrow> (pyexn + pyval) \<times> request list" where
  "perform e self op =
     (case request_of e op of
        Inl ex \<Rightarrow> (Inl ex, [])
      | Inr r \<Rightarrow> execute_query e self (fst r) (snd r))"

text \<open>\<open>test_connection\<close> catches every exception itself and answers with a flag and a
  message.\<close>

definition test_connection :: "env \<Rightarrow> client \<Rightarrow> (bool \<times> string) \<times> request list" where
  "test_connection e self =
     (case execute_query e self (fst test_connection_request) (snd test_connection_request) of
        (r, calls) \<Rightarrow>
          (case exn_bind r (\<lambda>result.
                  exn_bind (py_get result ''data'' (VDict [])) (\<lambda>d.
                  exn_bind (py_get d ''currentUser'' (VDict [])) (\<lambda>u.
                    py_get u ''email'' (VStr ''Unknown'')))) of
             Inr user_email \<Rightarrow>
               ((True, ''[OK] Connection successful! User: '' @ py_str user_email), calls)
           | Inl ex \<Rightarrow> ((False, ''[ERROR] Connection failed: '' @ exn_str ex), calls)))"

section \<open>The tool dispatcher (\<open>server_simple.py\<close>)\<close>

subsection \<open>Computations that send requests\<close>

text \<open>A handler's computation: its value or the exception that ended it, and the
  requests it sent to the API, in order.\<close>

type_synonym 'a io = "(pyexn + 'a) \<times> request list"

definition lift :: "pyexn + 'a \<Rightarrow> 'a io" where
  "lift m = (m, [])"

definition io_bind :: "'a io \<Rightarrow> ('a \<Rightarrow> 'b io) \<Rightarrow> 'b io" where
  "io_bind m f =
     (case m of
        (Inl ex, calls) \<Rightarrow> (Inl ex, calls)
      | (Inr x, calls) \<Rightarrow> (case f x of (r, calls') \<Rightarrow> (r, calls @ calls')))"

text \<open>\<open>try: ... except Exception as e: return h(e)\<close>\<close>

definition io_try :: "'a io \<Rightarrow> (pyexn \<Rightarrow> 'a) \<Rightarrow> 'a io" where
  "io_try m h = (case m of (Inl ex, calls) \<Rightarrow> (Inr (h ex), calls) | (Inr x, calls) \<Rightarrow> (Inr x, calls))"

fun map_exn :: "('a \<Rightarrow> pyexn + 'b) \<Rightarrow> 'a list \<Rightarrow> pyexn + 'b list" where
  "map_exn f [] = Inr []"
| "map_exn f (x # xs) = exn_bind (f x) (\<lambda>y. exn_bind (map_exn f xs) (\<lambda>ys. Inr (y # ys)))"

subsection \<open>Messages\<close>

text \<open>In English: there is no active session to stop.\<close>

definition MSG_NOTHING_TO_STOP :: string where
  "MSG_NOTHING_TO_STOP =
     ''[INFO] '' @
     [CHR 0xE6, CHR 0xB2, CHR 0xA1, CHR 0xE6, CHR 0x9C, CHR 0x89, CHR 0xE6, CHR 0xB4, CHR 0xBB, CHR 0xE5] @
     [CHR 0x8A, CHR 0xA8, CHR 0xE7, CHR 0x9A, CHR 0x84, CHR 0xE4, CHR 0xBC, CHR 0x9A, CHR 0xE8, CHR 0xAF] @
     [CHR 0x9D, CHR 0xE9, CHR 0x9C, CHR 0x80, CHR 0xE8, CHR 0xA6, CHR 0x81, CHR 0xE5, CHR 0x81, CHR 0x9C] @
     [CHR 0xE6, CHR 0xAD, CHR 0xA2, CHR 0xE3, CHR 0x80, CHR 0x82]"

text \<open>In English: current session, the title of a session without one.\<close>

definition MSG_CURRENT_SESSION :: string where
  "MSG_CURRENT_SESSION =
     [CHR 0xE5, CHR 0xBD, CHR 0x93, CHR 0xE5, CHR 0x89, CHR 0x8D, CHR 0xE4, CHR 0xBC, CHR 0x9A, CHR 0xE8] @
     [CHR 0xAF, CHR 0x9D]"

text \<open>In English: the following session is about to be stopped.\<close>

definition MSG_STOP_HEAD :: string where
  "MSG_STOP_HEAD =
     ''[CONFIRM] '' @
     [CHR 0xE5, CHR 0x8D, CHR 0xB3, CHR 0xE5, CHR 0xB0, CHR 0x86, CHR 0xE5, CHR 0x81, CHR 0x9C, CHR 0xE6] @
     [CHR 0xAD, CHR 0xA2, CHR 0xE4, CHR 0xBB, CHR 0xA5, CHR 0xE4, CHR 0xB8, CHR 0x8B, CHR 0xE4, CHR 0xBC] @
     [CHR 0x9A, CHR 0xE8, CHR 0xAF, CHR 0x9D, CHR 0xEF, CHR 0xBC, CHR 0x9A, CHR 0x0A, CHR 0x0A]"

text \<open>In English: session id.\<close>

definition MSG_STOP_ID :: string where
  "MSG_STOP_ID =
     ''  - '' @ [CHR 0xE4, CHR 0xBC, CHR 0x9A, CHR 0xE8, CHR 0xAF, CHR 0x9D] @ ''ID: ''"

text \<open>In English: title.\<close>

definition MSG_STOP_TITLE :: string where
  "MSG_STOP_TITLE =
     ''  - '' @ [CHR 0xE6, CHR 0xA0, CHR 0x87, CHR 0xE9, CHR 0xA2, CHR 0x98] @ '': ''"

text \<open>In English: start time.\<close>

definition MSG_STOP_START :: string where
  "MSG_STOP_START =
     ''  - '' @
     [CHR 0xE5, CHR 0xBC, CHR 0x80, CHR 0xE5, CHR 0xA7, CHR 0x8B, CHR 0xE6, CHR 0x97, CHR 0xB6, CHR 0xE9] @
     [CHR 0x97, CHR 0xB4] @ '': ''"

text \<open>In English: this ends the current session and records the time used.\<close>

definition MSG_STOP_EFFECT :: string where
  "MSG_STOP_EFFECT =
     [CHR 0xE8, CHR 0xBF, CHR 0x99, CHR 0xE5, CHR 0xB0, CHR 0x86, CHR 0xE7, CHR 0xBB, CHR 0x93, CHR 0xE6] @
     [CHR 0x9D, CHR 0x9F, CHR 0xE5, CHR 0xBD, CHR 0x93, CHR 0xE5, CHR 0x89, CHR 0x8D, CHR 0xE4, CHR 0xBC] @
     [CHR 0x9A, CHR 0xE8, CHR 0xAF, CHR 0x9D, CHR 0xE5, CHR 0xB9, CHR 0xB6, CHR 0xE8, CHR 0xAE, CHR 0xB0] @
     [CHR 0xE5, CHR 0xBD, CHR 0x95, CHR 0xE4, CHR 0xBD, CHR 0xBF, CHR 0xE7, CHR 0x94, CHR 0xA8, CHR 0xE6] @
     [CHR 0x97, CHR 0xB6, CHR 0xE9, CHR 0x97, CHR 0xB4, CHR 0xE3, CHR 0x80, CHR 0x82, CHR 0x0A]"

text \<open>In English: to confirm, call stop_session_timer again with the parameter confirm=true.\<close>

definition MSG_STOP_REINVOKE :: string where
  "MSG_STOP_REINVOKE =
     [CHR 0xE5, CHR 0xA6, CHR 0x82, CHR 0xE6, CHR 0x9E, CHR 0x9C, CHR 0xE7, CHR 0xA1, CHR 0xAE, CHR 0xE8] @
     [CHR 0xAE, CHR 0xA4, CHR 0xE8, CHR 0xA6, CHR 0x81, CHR 0xE5, CHR 0x81, CHR 0x9C, CHR 0xE6, CHR 0xAD] @
     [CHR 0xA2, CHR 0xEF, CHR 0xBC, CHR 0x8C, CHR 0xE8, CHR 0xAF, CHR 0xB7, CHR 0xE5, CHR 0x86, CHR 0x8D] @
     [CHR 0xE6, CHR 0xAC, CHR 0xA1, CHR 0xE8, CHR 0xB0, CHR 0x83, CHR 0xE7, CHR 0x94, CHR 0xA8] @
     '' stop_session_timer '' @
     [CHR 0xE5, CHR 0xB9, CHR 0xB6, CHR 0xE6, CHR 0xB7, CHR 0xBB, CHR 0xE5, CHR 0x8A, CHR 0xA0, CHR 0xE5] @
     [CHR 0x8F, CHR 0x82, CHR 0xE6, CHR 0x95, CHR 0xB0] @ '' confirm=true''"

text \<open>In English: neither start time nor end time is given.\<close>

definition ISSUE_NO_TIME :: string where
  "ISSUE_NO_TIME =
     [CHR 0xE5, CHR 0xBC, CHR 0x80, CHR 0xE5, CHR 0xA7, CHR 0x8B, CHR 0xE6, CHR 0x97, CHR 0xB6, CHR 0xE9] @
     [CHR 0x97, CHR 0xB4, CHR 0xE5, CHR 0x92, CHR 0x8C, CHR 0xE7, CHR 0xBB, CHR 0x93, CHR 0xE6, CHR 0x9D] @
     [CHR 0x9F, CHR 0xE6, CHR 0x97, CHR 0xB6, CHR 0xE9, CHR 0x97, CHR 0xB4, CHR 0xE9, CHR 0x83, CHR 0xBD] @
     [CHR 0xE6, CHR 0x9C, CHR 0xAA, CHR 0xE6, CHR 0x8C, CHR 0x87, CHR 0xE5, CHR 0xAE, CHR 0x9A]"

text \<open>In English: give a start time.\<close>

definition SUGGEST_START :: string where
  "SUGGEST_START =
     [CHR 0xE2, CHR 0x80, CHR 0xA2] @ '' '' @
     [CHR 0xE6, CHR 0x8C, CHR 0x87, CHR 0xE5, CHR 0xAE, CHR 0x9A, CHR 0xE5, CHR 0xBC, CHR 0x80, CHR 0xE5] @
     [CHR 0xA7, CHR 0x8B, CHR 0xE6, CHR 0x97, CHR 0xB6, CHR 0xE9, CHR 0x97, CHR 0xB4] @ '' ('' @
     [CHR 0xE5, CHR 0xA6, CHR 0x82] @ '': start_time='' @ [CHR 0x27] @ ''2025-07-21 14:00'' @
     [CHR 0x27] @ '')''"

text \<open>In English: or give an end time.\<close>

definition SUGGEST_END :: string where
  "SUGGEST_END =
     [CHR 0xE2, CHR 0x80, CHR 0xA2] @ '' '' @
     [CHR 0xE6, CHR 0x88, CHR 0x96, CHR 0xE6, CHR 0x8C, CHR 0x87, CHR 0xE5, CHR 0xAE, CHR 0x9A, CHR 0xE7] @
     [CHR 0xBB, CHR 0x93, CHR 0xE6, CHR 0x9D, CHR 0x9F, CHR 0xE6, CHR 0x97, CHR 0xB6, CHR 0xE9, CHR 0x97] @
     [CHR 0xB4] @ '' ('' @ [CHR 0xE5, CHR 0xA6, CHR 0x82] @ '': end_time='' @ [CHR 0x27] @
     ''2025-07-21 15:30'' @ [CHR 0x27] @ '')''"

text \<open>In English: the session title is not given.\<close>

definition ISSUE_NO_TITLE :: string where
  "ISSUE_NO_TITLE =
     [CHR 0xE4, CHR 0xBC, CHR 0x9A, CHR 0xE8, CHR 0xAF, CHR 0x9D, CHR 0xE6, CHR 0xA0, CHR 0x87, CHR 0xE9] @
     [CHR 0xA2, CHR 0x98, CHR 0xE6, CHR 0x9C, CHR 0xAA, CHR 0xE6, CHR 0x8C, CHR 0x87, CHR 0xE5, CHR 0xAE] @
     [CHR 0x9A]"

text \<open>In English: add a title.\<close>

definition SUGGEST_TITLE :: string where
  "SUGGEST_TITLE =
     [CHR 0xE2, CHR 0x80, CHR 0xA2] @ '' '' @
     [CHR 0xE6, CHR 0xB7, CHR 0xBB, CHR 0xE5, CHR 0x8A, CHR 0xA0, CHR 0xE6, CHR 0xA0, CHR 0x87, CHR 0xE9] @
     [CHR 0xA2, CHR 0x98] @ '' ('' @ [CHR 0xE5, CHR 0xA6, CHR 0x82] @ '': title='' @
     [CHR 0x27, CHR 0xE4, CHR 0xB8, CHR 0x93, CHR 0xE6, CHR 0xB3, CHR 0xA8, CHR 0xE5, CHR 0xB7, CHR 0xA5] @
     [CHR 0xE4, CHR 0xBD, CHR 0x9C, CHR 0x27] @ '')''"

text \<open>In English: duration.\<close>

definition ISSUE_DURATION_1 :: string where
  "ISSUE_DURATION_1 =
     [CHR 0xE6, CHR 0x8C, CHR 0x81, CHR 0xE7, CHR 0xBB, CHR 0xAD, CHR 0xE6, CHR 0x97, CHR 0xB6, CHR 0xE9] @
     [CHR 0x97, CHR 0xB4] @ '' ''"

text \<open>In English: minutes may be unreasonable.\<close>

definition ISSUE_DURATION_2 :: string where
  "ISSUE_DURATION_2 =
     '' '' @
     [CHR 0xE5, CHR 0x88, CHR 0x86, CHR 0xE9, CHR 0x92, CHR 0x9F, CHR 0xE5, CHR 0x8F, CHR 0xAF, CHR 0xE8] @
     [CHR 0x83, CHR 0xBD, CHR 0xE4, CHR 0xB8, CHR 0x8D, CHR 0xE5, CHR 0x90, CHR 0x88, CHR 0xE7, CHR 0x90] @
     [CHR 0x86]"

text \<open>In English: a duration between 5 and 480 minutes is advised.\<close>

definition SUGGEST_DURATION :: string where
  "SUGGEST_DURATION =
     [CHR 0xE2, CHR 0x80, CHR 0xA2] @ '' '' @
     [CHR 0xE5, CHR 0xBB, CHR 0xBA, CHR 0xE8, CHR 0xAE, CHR 0xAE, CHR 0xE6, CHR 0x8C, CHR 0x81, CHR 0xE7] @
     [CHR 0xBB, CHR 0xAD, CHR 0xE6, CHR 0x97, CHR 0xB6, CHR 0xE9, CHR 0x97, CHR 0xB4, CHR 0xE5, CHR 0x9C] @
     [CHR 0xA8] @ '' 5-480 '' @
     [CHR 0xE5, CHR 0x88, CHR 0x86, CHR 0xE9, CHR 0x92, CHR 0x9F, CHR 0xE4, CHR 0xB9, CHR 0x8B, CHR 0xE9] @
     [CHR 0x97, CHR 0xB4]"

text \<open>In English: before the session is created the following needs confirming.\<close>

definition MSG_CONFIRM_HEAD :: string where
  "MSG_CONFIRM_HEAD =
     ''[CONFIRM] '' @
     [CHR 0xE5, CHR 0x88, CHR 0x9B, CHR 0xE5, CHR 0xBB, CHR 0xBA, CHR 0xE4, CHR 0xBC, CHR 0x9A, CHR 0xE8] @
     [CHR 0xAF, CHR 0x9D, CHR 0xE5, CHR 0x89, CHR 0x8D, CHR 0xE9, CHR 0x9C, CHR 0x80, CHR 0xE8, CHR 0xA6] @
     [CHR 0x81, CHR 0xE7, CHR 0xA1, CHR 0xAE, CHR 0xE8, CHR 0xAE, CHR 0xA4, CHR 0xE4, CHR 0xBB, CHR 0xA5] @
     [CHR 0xE4, CHR 0xB8, CHR 0x8B, CHR 0xE4, CHR 0xBF, CHR 0xA1, CHR 0xE6, CHR 0x81, CHR 0xAF, CHR 0xEF] @
     [CHR 0xBC, CHR 0x9A, CHR 0x0A, CHR 0x0A]"

text \<open>In English: issues found.\<close>

definition MSG_CONFIRM_ISSUES :: string where
  "MSG_CONFIRM_ISSUES =
     [CHR 0xE5, CHR 0x8F, CHR 0x91, CHR 0xE7, CHR 0x8E, CHR 0xB0, CHR 0xE7, CHR 0x9A, CHR 0x84, CHR 0xE9] @
     [CHR 0x97, CHR 0xAE, CHR 0xE9, CHR 0xA2, CHR 0x98, CHR 0xEF, CHR 0xBC, CHR 0x9A, CHR 0x0A]"

text \<open>In English: suggested parameters.\<close>

definition MSG_CONFIRM_SUGGEST :: string where
  "MSG_CONFIRM_SUGGEST =
     [CHR 0x0A, CHR 0xE5, CHR 0xBB, CHR 0xBA, CHR 0xE8, CHR 0xAE, CHR 0xAE, CHR 0xE7, CHR 0x9A, CHR 0x84] @
     [CHR 0xE5, CHR 0x8F, CHR 0x82, CHR 0xE6, CHR 0x95, CHR 0xB0, CHR 0xEF, CHR 0xBC, CHR 0x9A, CHR 0x0A]"

text \<open>In English: current parameters.\<close>

definition MSG_CONFIRM_CURRENT :: string where
  "MSG_CONFIRM_CURRENT =
     [CHR 0x0A, CHR 0xE5, CHR 0xBD, CHR 0x93, CHR 0xE5, CHR 0x89, CHR 0x8D, CHR 0xE5, CHR 0x8F, CHR 0x82] @
     [CHR 0xE6, CHR 0x95, CHR 0xB0, CHR 0xEF, CHR 0xBC, CHR 0x9A, CHR 0x0A]"

text \<open>In English: give the missing parameters and call create_session again.\<close>

definition MSG_CONFIRM_TAIL :: string where
  "MSG_CONFIRM_TAIL =
     [CHR 0x0A, CHR 0xE8, CHR 0xAF, CHR 0xB7, CHR 0xE6, CHR 0x98, CHR 0x8E, CHR 0xE7, CHR 0xA1, CHR 0xAE] @
     [CHR 0xE6, CHR 0x8C, CHR 0x87, CHR 0xE5, CHR 0xAE, CHR 0x9A, CHR 0xE7, CHR 0xBC, CHR 0xBA, CHR 0xE5] @
     [CHR 0xA4, CHR 0xB1, CHR 0xE7, CHR 0x9A, CHR 0x84, CHR 0xE5, CHR 0x8F, CHR 0x82, CHR 0xE6, CHR 0x95] @
     [CHR 0xB0, CHR 0xE5, CHR 0x90, CHR 0x8E, CHR 0xE9, CHR 0x87, CHR 0x8D, CHR 0xE6, CHR 0x96, CHR 0xB0] @
     [CHR 0xE8, CHR 0xB0, CHR 0x83, CHR 0xE7, CHR 0x94, CHR 0xA8] @ '' create_session'' @
     [CHR 0xE3, CHR 0x80, CHR 0x82]"

subsection \<open>Reading a response\<close>

text \<open>\<open>result.get("data", {}).get(key, {})\<close>\<close>

definition payload :: "pyval \<Rightarrow> string \<Rightarrow> pyexn + pyval" where
  "payload result key =
     exn_bind (py_get result ''data'' (VDict [])) (\<lambda>d. py_get d key (VDict []))"

text \<open>\<open>[err['message'] for err in result["data"][key]["errors"]]\<close>\<close>

definition payload_error_messages :: "pyval \<Rightarrow> string \<Rightarrow> pyexn + pyval" where
  "payload_error_messages result key =
     exn_bind (py_getitem result ''data'') (\<lambda>d.
     exn_bind (py_getitem d key) (\<lambda>p.
     exn_bind (py_getitem p ''errors'') (\<lambda>errors.
     exn_bind (py_iter errors) (\<lambda>errs.
     exn_bind (map_exn (\<lambda>err. py_getitem err ''message'') errs) (\<lambda>ms.
       Inr (VList ms))))))"

subsection \<open>The handlers\<close>

text \<open>The \<open>try\<close> suite of \<open>test_connection_handler\<close>.\<close>

definition test_connection_try :: "env \<Rightarrow> string io" where
  "test_connection_try e =
     io_bind (lift (RizeClient e None)) (\<lambda>client.
        case test_connection e client of
          ((success, message), calls) \<Rightarrow> (Inr message, calls))"

definition test_connection_handler :: "env \<Rightarrow> string io" where
  "test_connection_handler e =
     io_try (test_connection_try e) (\<lambda>ex. ''[ERROR] Connection test failed: '' @ exn_str ex)"

text \<open>The loop of \<open>list_projects_handler\<close> over the edges.\<close>

fun project_lines :: "pyval list \<Rightarrow> string \<Rightarrow> pyexn + string" where
  "project_lines [] output = Inr output"
| "project_lines (edge # edges) output =
     exn_bind (py_getitem edge ''node'') (\<lambda>project.
     exn_bind (py_get project ''emoji'' (VStr [])) (\<lambda>emoji.
     exn_bind (py_getitem project ''name'') (\<lambda>name.
     exn_bind (py_getitem project ''id'') (\<lambda>project_id.
       project_lines edges
         (output @ py_str emoji @ '' '' @ py_str name @ '' (ID: '' @ py_str project_id @ '')''
            @ [newline_char])))))"

definition list_projects_text :: "pyval \<Rightarrow> pyexn + string" where
  "list_projects_text result =
     exn_bind (py_in ''errors'' result) (\<lambda>has_errors.
       if has_errors
       then exn_bind (py_getitem result ''errors'') (\<lambda>errs.
              Inr (''[ERROR] Failed to get projects: '' @ py_str errs))
       else
         exn_bind (py_get result ''data'' (VDict [])) (\<lambda>d.
         exn_bind (py_get d ''projects'' (VDict [])) (\<lambda>ps.
         exn_bind (py_get ps ''edges'' (VList [])) (\<lambda>projects.
           if \<not> truthy projects
           then Inr ''[INFO] No projects found. Use create_project to create one.''
           else
             exn_bind (py_len projects) (\<lambda>n.
             exn_bind (py_iter projects) (\<lambda>edges.
             exn_bind (project_lines edges
                         (''[SUCCESS] Found '' @ str_nat n @ '' projects:''
                            @ [newline_char, newline_char])) (\<lambda>output.
               Inr (strip output))))))))"

text \<open>The \<open>try\<close> suite of \<open>list_projects_handler\<close>.\<close>

definition list_projects_try :: "env \<Rightarrow> pyval \<Rightarrow> string io" where
  "list_projects_try e args =
     io_bind (lift (RizeClient e None)) (\<lambda>client.
      io_bind (lift (py_get args ''limit'' (VInt 10))) (\<lambda>limit.
      io_bind (perform e client (Get_projects (Some limit))) (\<lambda>result.
        lift (list_projects_text result))))"

definition list_projects_handler :: "env \<Rightarrow> pyval \<Rightarrow> string io" where
  "list_projects_handler e args =
     io_try (list_projects_try e args) (\<lambda>ex. ''[ERROR] Failed to list projects: '' @ exn_str ex)"

definition create_project_text :: "pyval \<Rightarrow> pyexn + string" where
  "create_project_text result =
     exn_bind (payload result ''createProject'') (\<lambda>p.
     exn_bind (py_in ''errors'' p) (\<lambda>has_errors.
       if has_errors
       then exn_bind (payload_error_messages result ''createProject'') (\<lambda>ms.
              Inr (''[ERROR] Failed to create project: '' @ py_str ms))
       else
         exn_bind (payload result ''createProject'') (\<lambda>p'.
         exn_bind (py_get p' ''project'' VNone) (\<lambda>project.
           if \<not> truthy project then Inr ''[ERROR] Failed to create project: No response data''
           else
             exn_bind (py_get project ''emoji'' (VStr [])) (\<lambda>emoji.
             exn_bind (py_getitem project ''name'') (\<lambda>project_name.
             exn_bind (py_getitem project ''id'') (\<lambda>project_id.
               Inr (''[SUCCESS] Project created: '' @ py_str emoji @ '' '' @ py_str project_name
                      @ '' (ID: '' @ py_str project_id @ '')''))))))))"

text \<open>The \<open>try\<close> suite of \<open>create_project_handler\<close>.\<close>

definition create_project_try :: "env \<Rightarrow> pyval \<Rightarrow> string io" where
  "create_project_try e args =
     io_bind (lift (RizeClient e None)) (\<lambda>client.
      io_bind (lift (py_get args ''name'' VNone)) (\<lambda>name.
        if \<not> truthy name then lift (Inr ''[ERROR] Missing required parameter: name'')
        else
          io_bind (lift (py_get args ''emoji'' VNone)) (\<lambda>emoji.
          io_bind (perform e client (Create_project name VNone VNone emoji VNone VNone))
            (\<lambda>result. lift (create_project_text result)))))"

definition create_project_handler :: "env \<Rightarrow> pyval \<Rightarrow> string io" where
  "create_project_handler e args =
     io_try (create_project_try e args) (\<lambda>ex. ''[ERROR] Failed to create project: '' @ exn_str ex)"

definition start_session_timer_text :: "pyval \<Rightarrow> pyexn + string" where
  "start_session_timer_text result =
     exn_bind (payload result ''startSessionTimer'') (\<lambda>p.
     exn_bind (py_in ''errors'' p) (\<lambda>has_errors.
       if has_errors
       then exn_bind (payload_error_messages result ''startSessionTimer'') (\<lambda>ms.
              Inr (''[ERROR] Failed to start timer: '' @ py_str ms))
       else
         exn_bind (payload result ''startSessionTimer'') (\<lambda>p'.
         exn_bind (py_get p' ''session'' VNone) (\<lambda>session.
           if \<not> truthy session then Inr ''[ERROR] Failed to start timer: No response data''
           else
             exn_bind (py_getitem session ''id'') (\<lambda>session_id.
             exn_bind (py_get session ''startTime'' (VStr [])) (\<lambda>start_time.
               Inr (''[SUCCESS] Timer started! Session ID: '' @ py_str session_id
                      @ '', Start time: '' @ py_str start_time)))))))"

text \<open>The \<open>try\<close> suite of \<open>start_session_timer_handler\<close>.\<close>

definition start_session_timer_try :: "env \<Rightarrow> pyval \<Rightarrow> string io" where
  "start_session_timer_try e args =
     io_bind (lift (RizeClient e None)) (\<lambda>client.
      io_bind (lift (py_get args ''session_type'' (VStr ''FOCUS''))) (\<lambda>session_type.
      io_bind (perform e client (Start_session_timer (Some session_type))) (\<lambda>result.
        lift (start_session_timer_text result))))"

definition start_session_timer_handler :: "env \<Rightarrow> pyval \<Rightarrow> string io" where
  "start_session_timer_handler e args =
     io_try (start_session_timer_try e args) (\<lambda>ex. ''[ERROR] Failed to start timer: '' @ exn_str ex)"

text \<open>\<open>stop_session_timer_handler\<close>, confirmed: what it answers from the result of the
  stop mutation.\<close>

definition stop_session_timer_text :: "pyval \<Rightarrow> pyexn + string" where
  "stop_session_timer_text result =
     exn_bind (payload result ''stopSessionTimer'') (\<lambda>p.
     exn_bind (py_in ''errors'' p) (\<lambda>has_errors.
       if has_errors
       then exn_bind (payload_error_messages result ''stopSessionTimer'') (\<lambda>ms.
              Inr (''[ERROR] Failed to stop timer: '' @ py_str ms))
       else
         exn_bind (payload result ''stopSessionTimer'') (\<lambda>p'.
         exn_bind (py_get p' ''session'' VNone) (\<lambda>session.
           if \<not> truthy session then Inr ''[ERROR] Failed to stop timer: No response data''
           else
             exn_bind (py_getitem session ''id'') (\<lambda>session_id.
             exn_bind (py_get session ''endTime'' (VStr [])) (\<lambda>end_time.
               Inr (''[SUCCESS] Timer stopped! Session ID: '' @ py_str session_id
                      @ '', End time: '' @ py_str end_time)))))))"

text \<open>\<open>stop_session_timer_handler\<close>, not confirmed: what it answers from the result of
  the query for the current session.\<close>

definition stop_confirmation_text :: "pyval \<Rightarrow> pyexn + string" where
  "stop_confirmation_text current_result =
     exn_bind (py_get current_result ''data'' (VDict [])) (\<lambda>d.
     exn_bind (py_get d ''currentSession'' VNone) (\<lambda>current_session.
       if \<not> truthy current_session then Inr MSG_NOTHING_TO_STOP
       else
         exn_bind (py_getitem current_session ''id'') (\<lambda>session_id.
         exn_bind (py_get current_session ''title'' (VStr MSG_CURRENT_SESSION)) (\<lambda>title.
         exn_bind (py_get current_session ''startTime'' (VStr [])) (\<lambda>start_time.
           Inr (MSG_STOP_HEAD
                @ MSG_STOP_ID @ py_str session_id @ [newline_char]
                @ MSG_STOP_TITLE @ py_str title @ [newline_char]
                @ MSG_STOP_START @ py_str start_time @ [newline_char, newline_char]
                @ MSG_STOP_EFFECT
                @ MSG_STOP_REINVOKE))))))"

text \<open>The \<open>try\<close> suite of \<open>stop_session_timer_handler\<close>.\<close>

definition stop_session_timer_try :: "env \<Rightarrow> pyval \<Rightarrow> string io" where
  "stop_session_timer_try e args =
     io_bind (lift (RizeClient e None)) (\<lambda>client.
      io_bind (lift (py_get args ''confirm'' (VBool False))) (\<lambda>confirm.
        if truthy confirm
        then io_bind (perform e client Stop_session_timer) (\<lambda>result.
               lift (stop_session_timer_text result))
        else io_bind (perform e client Get_current_session) (\<lambda>current_result.
               lift (stop_confirmation_text current_result))))"

definition stop_session_timer_handler :: "env \<Rightarrow> pyval \<Rightarrow> string io" where
  "stop_session_timer_handler e args =
     io_try (stop_session_timer_try e args) (\<lambda>ex. ''[ERROR] Failed to process stop request: '' @ exn_str ex)"

definition get_current_session_text :: "pyval \<Rightarrow> pyexn + string" where
  "get_current_session_text result =
     exn_bind (py_in ''errors'' result) (\<lambda>has_errors.
       if has_errors
       then exn_bind (py_getitem result ''errors'') (\<lambda>errs.
              Inr (''[ERROR] Failed to get current session: '' @ py_str errs))
       else
         exn_bind (py_get result ''data'' (VDict [])) (\<lambda>d.
         exn_bind (py_get d ''currentSession'' VNone) (\<lambda>session.
           if \<not> truthy session
           then Inr ''[INFO] No active session. Use start_session_timer to begin one.''
           else
             exn_bind (py_getitem session ''id'') (\<lambda>session_id.
             exn_bind (py_get session ''title'' (VStr ''Current session'')) (\<lambda>title.
             exn_bind (py_get session ''type'' (VStr [])) (\<lambda>session_type.
             exn_bind (py_get session ''startTime'' (VStr [])) (\<lambda>start_time.
               Inr (''[SUCCESS] Active session: '' @ py_str title @ '' (ID: '' @ py_str session_id
                      @ '', Type: '' @ py_str session_type @ '', Started: '' @ py_str start_time
                      @ '')''))))))))"

text \<open>The \<open>try\<close> suite of \<open>get_current_session_handler\<close>.\<close>

definition get_current_session_try :: "env \<Rightarrow> string io" where
  "get_current_session_try e =
     io_bind (lift (RizeClient e None)) (\<lambda>client.
      io_bind (perform e client Get_current_session) (\<lambda>result.
        lift (get_current_session_text result)))"

definition get_current_session_handler :: "env \<Rightarrow> string io" where
  "get_current_session_handler e =
     io_try (get_current_session_try e) (\<lambda>ex. ''[ERROR] Failed to get current session: '' @ exn_str ex)"

subsection \<open>\<open>validate_session_params\<close> and \<open>create_session_handler\<close>\<close>

text \<open>A value compared with an integer by \<open><\<close> or \<open>>\<close>: its number, or the
  \<open>TypeError\<close> of the comparison.\<close>

fun as_number :: "pyval \<Rightarrow> pyexn + int" where
  "as_number (VInt n) = Inr n"
| "as_number (VBool b) = Inr (if b then 1 else 0)"
| "as_number v =
     Inl (TypeError (quoted ''<'' @ '' not supported between instances of ''
        @ quoted (type_name v) @ '' and '' @ quoted ''int''))"

text \<open>\<open>duration_minutes and (duration_minutes < 5 or duration_minutes > 480)\<close>\<close>

definition duration_unreasonable :: "pyval \<Rightarrow> pyexn + bool" where
  "duration_unreasonable duration_minutes =
     (if truthy duration_minutes
      then exn_bind (as_number duration_minutes) (\<lambda>n. Inr (n < 5 \<or> n > 480))
      else Inr False)"

fun py_items :: "pyval \<Rightarrow> pyexn + (string \<times> pyval) list" where
  "py_items (VDict kvs) = Inr kvs"
| "py_items v = Inl (no_attribute v ''items'')"

definition confirm_message :: "string list \<Rightarrow> string list \<Rightarrow> (string \<times> pyval) list \<Rightarrow> string" where
  "confirm_message issues suggestions items =
     MSG_CONFIRM_HEAD
     @ MSG_CONFIRM_ISSUES
     @ concat (map (\<lambda>issue. ''  - '' @ issue @ [newline_char]) issues)
     @ MSG_CONFIRM_SUGGEST
     @ concat (map (\<lambda>suggestion. ''  '' @ suggestion @ [newline_char]) suggestions)
     @ MSG_CONFIRM_CURRENT
     @ concat (map (\<lambda>(key, v). ''  - '' @ key @ '': '' @ py_str v @ [newline_char]) items)
     @ MSG_CONFIRM_TAIL"

definition validate_session_params :: "pyval \<Rightarrow> pyexn + (bool \<times> string)" where
  "validate_session_params args =
     exn_bind (py_get args ''start_time'' VNone) (\<lambda>start_time.
     exn_bind (py_get args ''end_time'' VNone) (\<lambda>end_time.
     exn_bind (py_get args ''duration_minutes'' VNone) (\<lambda>duration_minutes.
       let no_time = (\<not> truthy start_time \<and> \<not> truthy end_time);
           issues = (if no_time then [ISSUE_NO_TIME] else []);
           suggestions = (if no_time then [SUGGEST_START, SUGGEST_END] else [])
       in
     exn_bind (py_get args ''title'' VNone) (\<lambda>title.
       let issues = issues @ (if \<not> truthy title then [ISSUE_NO_TITLE] else []);
           suggestions = suggestions @ (if \<not> truthy title then [SUGGEST_TITLE] else [])
       in
     exn_bind (duration_unreasonable duration_minutes) (\<lambda>bad.
       let issues = issues @ (if bad then [ISSUE_DURATION_1 @ py_str duration_minutes
                                             @ ISSUE_DURATION_2] else []);
           suggestions = suggestions @ (if bad then [SUGGEST_DURATION] else [])
       in
       if issues \<noteq> []
       then exn_bind (py_items args) (\<lambda>items.
              Inr (True, confirm_message issues suggestions items))
       else Inr (False, []))))))"

definition create_session_text :: "pyval \<Rightarrow> pyexn + string" where
  "create_session_text result =
     exn_bind (payload result ''createSession'') (\<lambda>p.
     exn_bind (py_in ''errors'' p) (\<lambda>has_errors.
       if has_errors
       then exn_bind (payload_error_messages result ''createSession'') (\<lambda>ms.
              Inr (''[ERROR] Failed to create session: '' @ py_str ms))
       else
         exn_bind (payload result ''createSession'') (\<lambda>p'.
         exn_bind (py_get p' ''session'' VNone) (\<lambda>session.
           if \<not> truthy session then Inr ''[ERROR] Failed to create session: No response data''
           else
             exn_bind (py_getitem session ''id'') (\<lambda>session_id.
             exn_bind (py_get session ''title'' (VStr ''New session'')) (\<lambda>session_title.
             exn_bind (py_get session ''type'' (VStr [])) (\<lambda>session_type.
             exn_bind (py_get session ''startTime'' (VStr [])) (\<lambda>start_time.
             exn_bind (py_get session ''endTime'' (VStr [])) (\<lambda>end_time.
               Inr (''[SUCCESS] Session created: '' @ py_str session_title @ '' (ID: ''
                      @ py_str session_id @ '', Type: '' @ py_str session_type
                      @ '', Duration: '' @ py_str start_time @ '' to '' @ py_str end_time
                      @ '')''))))))))))"

text \<open>The \<open>try\<close> suite of \<open>create_session_handler\<close>.\<close>

definition create_session_try :: "env \<Rightarrow> pyval \<Rightarrow> string io" where
  "create_session_try e args =
     io_bind (lift (validate_session_params args)) (\<lambda>(needs_confirm, confirm_msg).
        if needs_confirm then lift (Inr confirm_msg)
        else
          io_bind (lift (RizeClient e None)) (\<lambda>client.
          io_bind (lift (py_get args ''session_type'' (VStr ''focus''))) (\<lambda>session_type.
          io_bind (lift (py_get args ''title'' VNone)) (\<lambda>title.
          io_bind (lift (py_get args ''description'' VNone)) (\<lambda>description.
          io_bind (lift (py_get args ''duration_minutes'' (VInt 90))) (\<lambda>duration_minutes.
          io_bind (lift (py_get args ''start_time'' VNone)) (\<lambda>start_time.
          io_bind (lift (py_get args ''end_time'' VNone)) (\<lambda>end_time.
          io_bind (perform e client
                     (Create_session (Some session_type) title description
                        (Some duration_minutes) start_time end_time)) (\<lambda>result.
            lift (create_session_text result))))))))))"

definition create_session_handler :: "env \<Rightarrow> pyval \<Rightarrow> string io" where
  "create_session_handler e args =
     io_try (create_session_try e args) (\<lambda>ex. ''[ERROR] Failed to create session: '' @ exn_str ex)"

subsection \<open>\<open>handle_call_tool\<close>\<close>

datatype text_content = TextContent string

definition handle_call_tool :: "env \<Rightarrow> string \<Rightarrow> pyval \<Rightarrow> text_content list io" where
  "handle_call_tool e name arguments =
     io_try
       (let arguments = (if truthy arguments then arguments else VDict [])
        in io_bind
             (if name = ''test_connection'' then test_connection_handler e
              else if name = ''list_projects'' then list_projects_handler e arguments
              else if name = ''create_project'' then create_project_handler e arguments
              else if name = ''start_session_timer'' then start_session_timer_handler e arguments
              else if name = ''stop_session_timer'' then stop_session_timer_handler e arguments
              else if name = ''get_current_session'' then get_current_session_handler e
              else if name = ''create_session'' then create_session_handler e arguments
              else lift (Inr (''[ERROR] Unknown tool: '' @ name)))
             (\<lambda>result. lift (Inr [TextContent result])))
       (\<lambda>ex. [TextContent (''[ERROR] Tool call failed: '' @ exn_str ex)])"

section \<open>Notions of the specification\<close>

text \<open>The message of one entry of an \<open>errors\<close> collection: its \<open>message\<close> when that is a
  string, the stand-in text when it has none; \<open>None\<close> for an entry of another shape.\<close>

definition entry_message :: "pyval \<Rightarrow> string option" where
  "entry_message error =
     (case error of
        VDict kvs \<Rightarrow>
          (case map_of kvs ''message'' of
             None \<Rightarrow> Some MSG_NO_MESSAGE
           | Some (VStr m) \<Rightarrow> Some m
           | Some _ \<Rightarrow> None)
      | _ \<Rightarrow> None)"

text \<open>\<open>sep.join(xs)\<close>\<close>

fun joined :: "string \<Rightarrow> string list \<Rightarrow> string" where
  "joined sep [] = []"
| "joined sep [x] = x"
| "joined sep (x # y # ys) = x @ sep @ joined sep (y # ys)"

text \<open>The tool names of the catalogue, and the \<open>try\<close> suite that the handler of a tool
  runs on the arguments.\<close>

definition TOOL_NAMES :: "string list" where
  "TOOL_NAMES =
     [''test_connection'', ''list_projects'', ''create_project'', ''start_session_timer'',
      ''stop_session_timer'', ''get_current_session'', ''create_session'']"

definition tool_try :: "env \<Rightarrow> string \<Rightarrow> pyval \<Rightarrow> string io option" where
  "tool_try e name args =
     (if name = ''test_connection'' then Some (test_connection_try e)
      else if name = ''list_projects'' then Some (list_projects_try e args)
      else if name = ''create_project'' then Some (create_project_try e args)
      else if name = ''start_session_timer'' then Some (start_session_timer_try e args)
      else if name = ''stop_session_timer'' then Some (stop_session_timer_try e args)
      else if name = ''get_current_session'' then Some (get_current_session_try e)
      else if name = ''create_session'' then Some (create_session_try e args)
      else None)"

text \<open>\<open>arguments or {}\<close>\<close>

definition or_empty :: "pyval \<Rightarrow> pyval" where
  "or_empty arguments = (if truthy arguments then arguments else VDict [])"





















section \<open>Sample environments\<close>

text \<open>Concrete environments for the instances below: a configured token, an upstream
  service that answers by document alone, a fixed clock, and a \<open>fromisoformat\<close> that
  accepts nothing unless one is given.\<close>

definition sample_now :: datetime where
  "sample_now = \<lparr>year = 2024, month = 7, day = 21, hour = 9, minute = 0, second = 0,
                  microsecond = 5, tzinfo = None\<rparr>"

definition sample_env :: "(document \<Rightarrow> post_outcome) \<Rightarrow> env" where
  "sample_env upstream =
     \<lparr>getenv_token = Some ''rz_0123456789abcdef'',
      post = (\<lambda>tok query variables. upstream query),
      now = sample_now,
      time_time = 1721552400,
      fromisoformat = (\<lambda>s. None)\<rparr>"

definition sample_client :: client where
  "sample_client = \<lparr>api_token = ''rz_0123456789abcdef''\<rparr>"

text \<open>A 2xx response whose body parses to \<open>result\<close>.\<close>

definition ok_response :: "pyval \<Rightarrow> post_outcome" where
  "ok_response result = Response 200 [] (Inr result)"

text \<open>An upstream service with one session, which is the current one, the one that the
  stop mutation ends and the one that a creation returns; and an upstream service with
  no current session.\<close>

definition sample_session :: pyval where
  "sample_session =
     VDict [(''id'', VStr ''s-17''), (''title'', VStr ''Deep work''), (''type'', VStr ''focus''),
            (''startTime'', VStr ''2024-07-21T09:00:00Z''),
            (''endTime'', VStr ''2024-07-21T10:30:00Z'')]"

definition sample_upstream :: "document \<Rightarrow> post_outcome" where
  "sample_upstream query =
     (if query = GetCurrentSession
        then ok_response (VDict [(''data'', VDict [(''currentSession'', sample_session)])])
      else if query = StopSessionTimer
        then ok_response
               (VDict [(''data'', VDict [(''stopSessionTimer'', VDict [(''session'', sample_session)])])])
      else if query = CreateSession
        then ok_response
               (VDict [(''data'', VDict [(''createSession'', VDict [(''session'', sample_session)])])])
      else ConnectTimeout)"

text \<open>An upstream service that answers the stop mutation with every field that the
  document selects: the stopped session and the list of errors, which is empty.\<close>

definition stopped_with_errors_field :: "document \<Rightarrow> post_outcome" where
  "stopped_with_errors_field query =
     (if query = StopSessionTimer
        then ok_response
               (VDict [(''data'',
                        VDict [(''stopSessionTimer'',
                                VDict [(''session'', sample_session), (''errors'', VList [])])])])
      else ConnectTimeout)"

definition idle_upstream :: "document \<Rightarrow> post_outcome" where
  "idle_upstream query =
     (if query = GetCurrentSession
        then ok_response (VDict [(''data'', VDict [(''currentSession'', VNone)])])
      else ConnectTimeout)"

text \<open>Arguments for \<open>create_session\<close> with a title, a start time and a duration of 0
  minutes; and the start time they name.\<close>

definition zero_duration_args :: pyval where
  "zero_duration_args =
     VDict [(''title'', VStr ''Focus''), (''start_time'', VStr ''2024-07-21 09:00''),
            (''duration_minutes'', VInt 0)]"

definition nine_o_clock :: datetime where
  "nine_o_clock = \<lparr>year = 2024, month = 7, day = 21, hour = 9, minute = 0, second = 0,
                    microsecond = 0, tzinfo = None\<rparr>"

text \<open>A start time with a UTC offset of eight hours, as text and as the value that
  \<open>datetime.fromisoformat\<close> makes of it; and a \<open>fromisoformat\<close> that accepts this text.\<close>

definition offset_text :: string where
  "offset_text = ''2024-07-21T09:00:00+08:00''"

definition offset_datetime :: datetime where
  "offset_datetime = \<lparr>year = 2024, month = 7, day = 21, hour = 9, minute = 0, second = 0,
                       microsecond = 0, tzinfo = Some (8 * 3600 * US_PER_SECOND)\<rparr>"

definition offset_parser :: "string \<Rightarrow> datetime option" where
  "offset_parser s = (if s = offset_text then Some offset_datetime else None)"

text \<open>Ninety minutes after \<open>nine_o_clock\<close>.\<close>

definition half_past_ten :: datetime where
  "half_past_ten = nine_o_clock\<lparr>hour := 10, minute := 30\<rparr>"

section \<open>Properties\<close>

subsection \<open>The session type of \<open>start_session_timer\<close>\<close>

text \<open>
  Claim C10. The \<open>session_type\<close> argument of \<open>start_session_timer\<close> has no effect on
  the request: for any two values the operation builds the same document and the same
  variables, which are an \<open>input\<close> object holding the key \<open>clientMutationId\<close> and
  nothing else; the request sent is the same, and so is everything the tool handler
  does, whatever arguments it is given.
\<close>

theorem start_session_timer_ignores_session_type:
  "start_session_timer_request e t1 = start_session_timer_request e t2
   \<and> start_session_timer_request e t1 =
       (StartSessionTimer,
        VDict [(''input'',
                VDict [(''clientMutationId'', VStr (''start_timer_'' @ str_int (time_time e)))])])
   \<and> perform e self (Start_session_timer t1) = perform e self (Start_session_timer t2)
   \<and> start_session_timer_handler e (VDict args1) = start_session_timer_handler e (VDict args2)"
  by (simp add: start_session_timer_request_def perform_def start_session_timer_handler_def
      start_session_timer_try_def io_bind_def lift_def split: sum.splits)

subsection \<open>Failures of \<open>execute_query\<close> by transport condition\<close>

lemma redacted_length: "12 \<le> length tok \<Longrightarrow> length (redacted tok) = 15"
  by (simp add: redacted_def)

lemma failure_messages_distinct:
  "MSG_AUTH @ x \<noteq> MSG_RATE_LIMIT" "MSG_AUTH @ x \<noteq> MSG_HTTP @ y" "MSG_HTTP @ y \<noteq> MSG_RATE_LIMIT"
  by (simp_all add: MSG_AUTH_def MSG_RATE_LIMIT_def MSG_HTTP_def)

text \<open>
  Claim C5. \<open>execute_query\<close> classifies a failure by what the transport met: a connect
  timeout, any other network failure and a status of 500 or above give a
  \<open>ConnectionError\<close>; status 401 gives a \<open>ValueError\<close> whose message ends with the token
  cut to its first 8 and last 4 characters around \<open>...\<close> (15 characters for a token of
  12 or more); status 429 gives the \<open>ValueError\<close> of the rate limit, not the
  \<open>ConnectionError\<close> of status 500; every other status outside 200..299 gives a
  \<open>ValueError\<close> with the status code and the raw body. The three \<open>ValueError\<close> messages
  differ from their first character on.
\<close>

theorem execute_query_classifies_failures:
  assumes "post e (api_token self) query (if truthy variables then variables else VDict []) = outcome"
  shows "(outcome = ConnectTimeout \<longrightarrow>
            fst (execute_query e self query variables) = Inl (ConnectionError MSG_TIMEOUT))
       \<and> (\<forall>m. outcome = RequestError m \<longrightarrow>
            fst (execute_query e self query variables) = Inl (ConnectionError (MSG_NETWORK @ m)))
       \<and> (\<forall>s t j. outcome = Response s t j \<and> 500 \<le> s \<longrightarrow>
            fst (execute_query e self query variables)
              = Inl (ConnectionError (MSG_SERVER @ str_int s @ '')'')))
       \<and> (\<forall>t j. outcome = Response 401 t j \<longrightarrow>
            fst (execute_query e self query variables)
              = Inl (ValueError (MSG_AUTH @ take 8 (api_token self) @ ''...''
                                  @ drop (length (api_token self) - 4) (api_token self))))
       \<and> (\<forall>t j. outcome = Response 429 t j \<longrightarrow>
            fst (execute_query e self query variables) = Inl (ValueError MSG_RATE_LIMIT))
       \<and> (\<forall>s t j. outcome = Response s t j \<and> \<not> (200 \<le> s \<and> s \<le> 299) \<and> s \<noteq> 401 \<and> s \<noteq> 429
                    \<and> s < 500 \<longrightarrow>
            fst (execute_query e self query variables)
              = Inl (ValueError (MSG_HTTP @ str_int s @ '': '' @ t)))
       \<and> (\<forall>x y. MSG_AUTH @ x \<noteq> MSG_RATE_LIMIT \<and> MSG_AUTH @ x \<noteq> MSG_HTTP @ y
                  \<and> MSG_HTTP @ y \<noteq> MSG_RATE_LIMIT)
       \<and> (12 \<le> length (api_token self) \<longrightarrow> length (redacted (api_token self)) = 15)"
  using assms
  by (auto simp: execute_query_def Let_def redacted_def failure_messages_distinct)

text \<open>Instances of C5: one upstream behaviour for each class.\<close>

theorem execute_query_classifies_failures_witness:
  "fst (execute_query (sample_env (\<lambda>q. ConnectTimeout)) sample_client GetProjects VNone)
     = Inl (ConnectionError MSG_TIMEOUT)
   \<and> fst (execute_query (sample_env (\<lambda>q. RequestError ''reset'')) sample_client GetProjects VNone)
     = Inl (ConnectionError (MSG_NETWORK @ ''reset''))
   \<and> fst (execute_query (sample_env (\<lambda>q. Response 500 ''oops'' (Inl []))) sample_client GetProjects VNone)
     = Inl (ConnectionError (MSG_SERVER @ ''500)''))
   \<and> fst (execute_query (sample_env (\<lambda>q. Response 401 ''denied'' (Inl []))) sample_client GetProjects VNone)
     = Inl (ValueError (MSG_AUTH @ ''rz_01234...cdef''))
   \<and> fst (execute_query (sample_env (\<lambda>q. Response 429 ''slow'' (Inl []))) sample_client GetProjects VNone)
     = Inl (ValueError MSG_RATE_LIMIT)
   \<and> fst (execute_query (sample_env (\<lambda>q. Response 404 ''gone'' (Inl []))) sample_client GetProjects VNone)
     = Inl (ValueError (MSG_HTTP @ ''404: gone''))
   \<and> length (redacted (api_token sample_client)) = 15"
proof -
  have p: "\<And>u. post (sample_env u) (api_token sample_client) GetProjects
             (if truthy VNone then VNone else VDict []) = u GetProjects"
    by (simp add: sample_env_def)
  have n500: "str_int 500 = ''500''" and n404: "str_int 404 = ''404''"
    by (simp_all add: str_int_def str_nat.simps digit_char_def)
  have tok: "api_token sample_client = ''rz_0123456789abcdef''"
    by (simp add: sample_client_def)
  show ?thesis
    using execute_query_classifies_failures [OF p, of "\<lambda>q. ConnectTimeout"]
      execute_query_classifies_failures [OF p, of "\<lambda>q. RequestError ''reset''"]
      execute_query_classifies_failures [OF p, of "\<lambda>q. Response 500 ''oops'' (Inl [])"]
      execute_query_classifies_failures [OF p, of "\<lambda>q. Response 401 ''denied'' (Inl [])"]
      execute_query_classifies_failures [OF p, of "\<lambda>q. Response 429 ''slow'' (Inl [])"]
      execute_query_classifies_failures [OF p, of "\<lambda>q. Response 404 ''gone'' (Inl [])"]
    by (simp add: n500 n404 tok)
qed

subsection \<open>GraphQL errors in a 2xx response\<close>

lemma add_error_messages_ok:
  "map entry_message errors = map Some msgs \<Longrightarrow>
   add_error_messages errors acc = Inr (acc @ concat (map (\<lambda>m. m @ ''; '') msgs))"
proof (induction errors arbitrary: acc msgs)
  case Nil
  then show ?case by simp
next
  case (Cons error errors)
  then obtain m ms where msgs: "msgs = m # ms" and m: "entry_message error = Some m"
    and ms: "map entry_message errors = map Some ms"
    by (cases msgs) auto
  from m have step: "exn_bind (py_get error ''message'' (VStr MSG_NO_MESSAGE)) (\<lambda>v. py_add_str v ''; '')
      = Inr (m @ ''; '')"
    by (auto simp: entry_message_def exn_bind_def split: pyval.splits option.splits)
  then show ?case
    using Cons.IH [OF ms] msgs
    by (auto simp: exn_bind_def split: sum.splits)
qed

lemma concat_joined:
  "msgs \<noteq> [] \<Longrightarrow> concat (map (\<lambda>m. m @ sep) msgs) = joined sep msgs @ sep"
  by (induction sep msgs rule: joined.induct) auto

lemma joined_last:
  "msgs \<noteq> [] \<Longrightarrow> last msgs \<noteq> [] \<Longrightarrow> joined sep msgs \<noteq> [] \<and> last (joined sep msgs) = last (last msgs)"
  by (induction sep msgs rule: joined.induct) auto

lemma rstrip_append:
  assumes "ys \<noteq> []" "last ys \<notin> set cs" "set sep \<subseteq> set cs"
  shows "rstrip cs (ys @ sep) = ys"
proof -
  have "dropWhile (\<lambda>c. c \<in> set cs) (rev sep @ rev ys) = dropWhile (\<lambda>c. c \<in> set cs) (rev ys)"
    using assms(3) by (intro dropWhile_append2) auto
  moreover have "dropWhile (\<lambda>c. c \<in> set cs) (rev ys) = rev ys"
    using assms(1,2) by (cases ys rule: rev_cases) auto
  ultimately show ?thesis by (simp add: rstrip_def)
qed

lemma check_graphql_errors_raises:
  "map_of body ''errors'' = Some errs \<Longrightarrow> \<exists>ex. check_graphql_errors (VDict body) = Inl ex"
  by (auto simp: check_graphql_errors_def exn_bind_def split: sum.splits)

lemma check_graphql_errors_message:
  assumes "map_of body ''errors'' = Some (VList errors)" "map entry_message errors = map Some msgs"
  shows "check_graphql_errors (VDict body)
         = Inl (ValueError (rstrip ''; '' (MSG_GRAPHQL @ concat (map (\<lambda>m. m @ ''; '') msgs))))"
  using assms add_error_messages_ok [OF assms(2), of MSG_GRAPHQL]
  by (simp add: check_graphql_errors_def exn_bind_def)

lemma check_graphql_errors_joined:
  assumes "map_of body ''errors'' = Some (VList errors)" "map entry_message errors = map Some msgs"
    and "msgs \<noteq> []" "last msgs \<noteq> []" "last (last msgs) \<notin> set ''; ''"
  shows "check_graphql_errors (VDict body) = Inl (ValueError (MSG_GRAPHQL @ joined ''; '' msgs))"
proof -
  have "rstrip ''; '' ((MSG_GRAPHQL @ joined ''; '' msgs) @ ''; '') = MSG_GRAPHQL @ joined ''; '' msgs"
    using joined_last [OF assms(3,4), of "''; ''"] assms(5)
    by (intro rstrip_append) auto
  then show ?thesis
    using check_graphql_errors_message [OF assms(1,2)] concat_joined [OF assms(3), of "''; ''"]
    by simp
qed

lemma check_graphql_errors_none:
  "map_of body ''errors'' = None \<Longrightarrow> check_graphql_errors (VDict body) = Inr (VDict body)"
  by (simp add: check_graphql_errors_def exn_bind_def)

text \<open>
  Claim C6. For a 2xx response whose body parses to an object: if the object has an
  \<open>errors\<close> key, \<open>execute_query\<close> raises a \<open>ValueError\<close> and returns no data. The
  \<open>ValueError\<close> that reports the GraphQL errors is raised inside the \<open>try\<close> whose last
  clause catches every exception, so the caller gets the unknown-error \<open>ValueError\<close>
  made of it: if \<open>errors\<close> is a list of objects whose messages are strings (an entry
  without one counts with the stand-in text), and the last message is not empty and
  ends in neither \<open>;\<close> nor a blank, the message is the unknown-error prefix, the
  GraphQL-error prefix and the messages joined by \<open>; \<close>. If the object has no \<open>errors\<close>
  key, the object is returned as it is.
\<close>

theorem graphql_errors_fail_and_clean_results_return:
  assumes "post e (api_token self) query (if truthy variables then variables else VDict [])
             = Response s t (Inr (VDict body))"
    and "200 \<le> s" "s \<le> 299"
  shows "(\<forall>errs. map_of body ''errors'' = Some errs \<longrightarrow>
            (\<exists>m. fst (execute_query e self query variables) = Inl (ValueError m)))
       \<and> (\<forall>errors msgs. map_of body ''errors'' = Some (VList errors)
              \<and> map entry_message errors = map Some msgs
              \<and> msgs \<noteq> [] \<and> last msgs \<noteq> [] \<and> last (last msgs) \<notin> set ''; '' \<longrightarrow>
            fst (execute_query e self query variables)
              = Inl (ValueError (MSG_UNKNOWN @ MSG_GRAPHQL @ joined ''; '' msgs)))
       \<and> (map_of body ''errors'' = None \<longrightarrow>
            fst (execute_query e self query variables) = Inr (VDict body))"
proof (intro conjI allI impI)
  fix errs assume "map_of body ''errors'' = Some errs"
  from check_graphql_errors_raises [OF this] assms
  show "\<exists>m. fst (execute_query e self query variables) = Inl (ValueError m)"
    by (auto simp: execute_query_def)
next
  fix errors msgs
  assume "map_of body ''errors'' = Some (VList errors)
              \<and> map entry_message errors = map Some msgs
              \<and> msgs \<noteq> [] \<and> last msgs \<noteq> [] \<and> last (last msgs) \<notin> set ''; ''"
  then have "check_graphql_errors (VDict body) = Inl (ValueError (MSG_GRAPHQL @ joined ''; '' msgs))"
    by (intro check_graphql_errors_joined) auto
  with assms show "fst (execute_query e self query variables)
              = Inl (ValueError (MSG_UNKNOWN @ MSG_GRAPHQL @ joined ''; '' msgs))"
    by (simp add: execute_query_def)
next
  assume "map_of body ''errors'' = None"
  from check_graphql_errors_none [OF this] assms
  show "fst (execute_query e self query variables) = Inr (VDict body)"
    by (simp add: execute_query_def)
qed

text \<open>Instances of C6: an \<open>errors\<close> value that is no list, three entries of which one has
  no message, and a body without \<open>errors\<close>.\<close>

theorem graphql_errors_fail_and_clean_results_return_witness:
  "(\<exists>m. fst (execute_query
            (sample_env (\<lambda>q. ok_response (VDict [(''data'', VNone), (''errors'', VInt 7)])))
            sample_client GetProjects VNone) = Inl (ValueError m))
   \<and> fst (execute_query
            (sample_env (\<lambda>q. ok_response
               (VDict [(''errors'', VList [VDict [(''message'', VStr ''Not found'')],
                                           VDict [(''path'', VStr ''x'')],
                                           VDict [(''message'', VStr ''Denied'')]])])))
            sample_client GetProjects VNone)
       = Inl (ValueError (MSG_UNKNOWN @ MSG_GRAPHQL @ ''Not found; '' @ MSG_NO_MESSAGE @ ''; Denied''))
   \<and> fst (execute_query
            (sample_env (\<lambda>q. ok_response (VDict [(''data'', VDict [(''projects'', VNone)])])))
            sample_client GetProjects VNone)
       = Inr (VDict [(''data'', VDict [(''projects'', VNone)])])"
proof -
  have p: "\<And>r. post (sample_env (\<lambda>q. ok_response (VDict r))) (api_token sample_client) GetProjects
             (if truthy VNone then VNone else VDict []) = Response 200 [] (Inr (VDict r))"
    by (simp add: sample_env_def ok_response_def)
  note th = graphql_errors_fail_and_clean_results_return [OF p, simplified]
  have a: "\<exists>m. fst (execute_query
            (sample_env (\<lambda>q. ok_response (VDict [(''data'', VNone), (''errors'', VInt 7)])))
            sample_client GetProjects VNone) = Inl (ValueError m)"
    using th [of "[(''data'', VNone), (''errors'', VInt 7)]"] by simp
  have b: "fst (execute_query
            (sample_env (\<lambda>q. ok_response
               (VDict [(''errors'', VList [VDict [(''message'', VStr ''Not found'')],
                                           VDict [(''path'', VStr ''x'')],
                                           VDict [(''message'', VStr ''Denied'')]])])))
            sample_client GetProjects VNone)
       = Inl (ValueError (MSG_UNKNOWN @ MSG_GRAPHQL @ ''Not found; '' @ MSG_NO_MESSAGE @ ''; Denied''))"
    using th [of "[(''errors'', VList [VDict [(''message'', VStr ''Not found'')],
                                           VDict [(''path'', VStr ''x'')],
                                           VDict [(''message'', VStr ''Denied'')]])]",
              THEN conjunct2, THEN conjunct1, rule_format,
              of "[VDict [(''message'', VStr ''Not found'')],
                                           VDict [(''path'', VStr ''x'')],
                                           VDict [(''message'', VStr ''Denied'')]]"
                 "[''Not found'', MSG_NO_MESSAGE, ''Denied'']"]
    by (simp add: entry_message_def)
  have c: "fst (execute_query
            (sample_env (\<lambda>q. ok_response (VDict [(''data'', VDict [(''projects'', VNone)])])))
            sample_client GetProjects VNone)
       = Inr (VDict [(''data'', VDict [(''projects'', VNone)])])"
    using th [of "[(''data'', VDict [(''projects'', VNone)])]"] by simp
  from a b c show ?thesis by blast
qed

text \<open>
  Where the code misses C6: the message is not always the entries' messages joined by
  semicolons. \<open>rstrip("; ")\<close>, there to drop the separator after the last message,
  removes every trailing \<open>;\<close> and blank, so the end of the last entry's message
  \<open>Unexpected ;\<close> is lost with the separator; and the message reports an unknown error
  in front of the GraphQL error.
\<close>

theorem graphql_error_message_not_joined_counterexample:
  "fst (execute_query
          (sample_env (\<lambda>q. ok_response
             (VDict [(''errors'', VList [VDict [(''message'', VStr ''Unexpected ;'')]])])))
          sample_client GetProjects VNone)
     = Inl (ValueError (MSG_UNKNOWN @ MSG_GRAPHQL @ ''Unexpected''))
   \<and> \<not> str_contains (joined ''; '' [''Unexpected ;'']) (MSG_UNKNOWN @ MSG_GRAPHQL @ ''Unexpected'')"
  by (simp add: execute_query_def sample_env_def ok_response_def sample_client_def
      check_graphql_errors_def exn_bind_def rstrip_def MSG_GRAPHQL_def MSG_UNKNOWN_def)

subsection \<open>The dispatcher returns text\<close>

lemma io_try_Inl: "fst m = Inl ex \<Longrightarrow> io_try m h = (Inr (h ex), snd m)"
  by (cases m) (simp add: io_try_def)

lemma io_try_Inr: "fst m = Inr x \<Longrightarrow> io_try m h = m"
  by (cases m) (simp add: io_try_def)

lemma snd_io_try: "snd (io_try m h) = snd m"
  by (cases m) (simp add: io_try_def split: sum.splits)

lemma io_bind_lift: "io_bind (lift m) f = (case m of Inl ex \<Rightarrow> (Inl ex, []) | Inr x \<Rightarrow> f x)"
  by (simp add: io_bind_def lift_def split: sum.splits)

lemma io_bind_then_lift: "io_bind m (\<lambda>x. lift (f x)) = (exn_bind (fst m) f, snd m)"
  by (cases m) (simp add: io_bind_def lift_def exn_bind_def split: sum.splits)

lemma fst_lift: "fst (lift m) = m" and snd_lift: "snd (lift m) = []"
  by (simp_all add: lift_def)

lemma or_empty_idem: "or_empty (or_empty v) = or_empty v"
  by (simp add: or_empty_def)

lemma execute_query_sent:
  "r \<in> set (snd (execute_query e cl q v)) \<Longrightarrow>
   fst (execute_query e cl (fst r) (snd r)) = fst (execute_query e cl q v)"
  by (simp add: execute_query_def Let_def)

lemma perform_sent:
  "r \<in> set (snd (perform e cl op)) \<Longrightarrow>
   fst (execute_query e cl (fst r) (snd r)) = fst (perform e cl op)"
  by (auto simp: perform_def execute_query_sent split: sum.splits)

text \<open>A request that was sent and failed ends the \<open>try\<close> suite with that failure;
  \<open>test_connection\<close> answers with its own error text instead.\<close>

lemma tool_try_api_failure:
  assumes "tool_try e name args = Some m" "RizeClient e None = Inr cl"
    and "r \<in> set (snd m)" "fst (execute_query e cl (fst r) (snd r)) = Inl ex"
  shows "fst m = Inl ex \<or> fst m = Inr (''[ERROR] Connection failed: '' @ exn_str ex)"
proof -
  have sent: "\<And>op. r \<in> set (snd (perform e cl op)) \<Longrightarrow> fst (perform e cl op) = Inl ex"
    using perform_sent assms(4) by metis
  have tc: "r \<in> set (snd (test_connection e cl)) \<Longrightarrow>
      fst (test_connection e cl) = (False, ''[ERROR] Connection failed: '' @ exn_str ex)"
    using assms(4) execute_query_sent [of r e cl "fst test_connection_request" "snd test_connection_request"]
    by (auto simp: test_connection_def exn_bind_def split: prod.splits sum.splits)
  consider "name = ''test_connection''" | "name = ''list_projects''" | "name = ''create_project''"
    | "name = ''start_session_timer''" | "name = ''stop_session_timer''"
    | "name = ''get_current_session''" | "name = ''create_session''"
    using assms(1) by (auto simp: tool_try_def split: if_splits)
  then show ?thesis
  proof cases
    case 1
    then have "m = test_connection_try e" using assms(1) by (simp add: tool_try_def)
    then show ?thesis
      using assms(2,3) tc
      by (auto simp: test_connection_try_def io_bind_lift split: prod.splits)
  next
    case 2
    then have "m = list_projects_try e args" using assms(1) by (simp add: tool_try_def)
    then show ?thesis
      using assms(2,3) sent
      by (auto simp: list_projects_try_def io_bind_lift io_bind_then_lift exn_bind_def
          split: sum.splits)
  next
    case 3
    then have "m = create_project_try e args" using assms(1) by (simp add: tool_try_def)
    then show ?thesis
      using assms(2,3) sent
      by (auto simp: create_project_try_def io_bind_lift io_bind_then_lift exn_bind_def
          fst_lift snd_lift split: sum.splits if_splits)
  next
    case 4
    then have "m = start_session_timer_try e args" using assms(1) by (simp add: tool_try_def)
    then show ?thesis
      using assms(2,3) sent
      by (auto simp: start_session_timer_try_def io_bind_lift io_bind_then_lift exn_bind_def
          split: sum.splits)
  next
    case 5
    then have "m = stop_session_timer_try e args" using assms(1) by (simp add: tool_try_def)
    then show ?thesis
      using assms(2,3) sent
      by (auto simp: stop_session_timer_try_def io_bind_lift io_bind_then_lift exn_bind_def
          split: sum.splits if_splits)
  next
    case 6
    then have "m = get_current_session_try e" using assms(1) by (simp add: tool_try_def)
    then show ?thesis
      using assms(2,3) sent
      by (auto simp: get_current_session_try_def io_bind_lift io_bind_then_lift exn_bind_def
          split: sum.splits)
  next
    case 7
    then have "m = create_session_try e args" using assms(1) by (simp add: tool_try_def)
    then show ?thesis
      using assms(2,3) sent
      by (auto simp: create_session_try_def io_bind_lift io_bind_then_lift exn_bind_def
          fst_lift snd_lift split: sum.splits if_splits prod.splits)
  qed
qed

text \<open>The handler that the dispatcher selects, and what the dispatcher makes of it.\<close>

lemma handle_call_tool_known:
  assumes "tool_try e name (or_empty arguments) = Some m"
  shows "\<exists>p. prefix ''[ERROR]'' p \<and> handle_call_tool e name arguments =
           (case io_try m (\<lambda>ex. p @ exn_str ex) of
              (r, calls) \<Rightarrow> (map_sum id (\<lambda>t. [TextContent t]) r, calls))"
proof -
  have *: "\<And>m h. io_try (io_bind (io_try m h) (\<lambda>result. lift (Inr [TextContent result]))) h'
        = (case io_try m h of (r, calls) \<Rightarrow> (map_sum id (\<lambda>t. [TextContent t]) r, calls))" for h'
    by (auto simp: io_try_def io_bind_def lift_def split: prod.splits sum.splits)
  consider "name = ''test_connection''" | "name = ''list_projects''" | "name = ''create_project''"
    | "name = ''start_session_timer''" | "name = ''stop_session_timer''"
    | "name = ''get_current_session''" | "name = ''create_session''"
    using assms by (auto simp: tool_try_def split: if_splits)
  then show ?thesis
  proof cases
    case 1
    with assms show ?thesis
      unfolding tool_try_def handle_call_tool_def Let_def or_empty_def [symmetric]
      by (intro exI [of _ "''[ERROR] Connection test failed: ''"])
         (simp add: test_connection_handler_def *)
  next
    case 2
    with assms show ?thesis
      unfolding tool_try_def handle_call_tool_def Let_def or_empty_def [symmetric]
      by (intro exI [of _ "''[ERROR] Failed to list projects: ''"])
         (simp add: list_projects_handler_def *)
  next
    case 3
    with assms show ?thesis
      unfolding tool_try_def handle_call_tool_def Let_def or_empty_def [symmetric]
      by (intro exI [of _ "''[ERROR] Failed to create project: ''"])
         (simp add: create_project_handler_def *)
  next
    case 4
    with assms show ?thesis
      unfolding tool_try_def handle_call_tool_def Let_def or_empty_def [symmetric]
      by (intro exI [of _ "''[ERROR] Failed to start timer: ''"])
         (simp add: start_session_timer_handler_def *)
  next
    case 5
    with assms show ?thesis
      unfolding tool_try_def handle_call_tool_def Let_def or_empty_def [symmetric]
      by (intro exI [of _ "''[ERROR] Failed to process stop request: ''"])
         (simp add: stop_session_timer_handler_def *)
  next
    case 6
    with assms show ?thesis
      unfolding tool_try_def handle_call_tool_def Let_def or_empty_def [symmetric]
      by (intro exI [of _ "''[ERROR] Failed to get current session: ''"])
         (simp add: get_current_session_handler_def *)
  next
    case 7
    with assms show ?thesis
      unfolding tool_try_def handle_call_tool_def Let_def or_empty_def [symmetric]
      by (intro exI [of _ "''[ERROR] Failed to create session: ''"])
         (simp add: create_session_handler_def *)
  qed
qed

lemma handle_call_tool_unknown:
  assumes "name \<notin> set TOOL_NAMES"
  shows "handle_call_tool e name arguments = (Inr [TextContent (''[ERROR] Unknown tool: '' @ name)], [])"
  using assms
  by (simp add: TOOL_NAMES_def handle_call_tool_def io_try_def io_bind_def lift_def)

lemma tool_try_None: "tool_try e name args = None \<longleftrightarrow> name \<notin> set TOOL_NAMES"
  by (auto simp: tool_try_def TOOL_NAMES_def)

text \<open>
  Claim C4. For every tool name and every argument value (absent arguments count as an
  empty mapping), \<open>handle_call_tool\<close> returns one text content and raises nothing. For a
  name outside the catalogue the text is the unknown-tool message and no request is
  sent. When the \<open>try\<close> suite of the tool's handler raises an exception, and when a
  request that the call sent to the API failed in \<open>execute_query\<close>, the text starts with
  \<open>[ERROR]\<close> and ends with the message of the exception.
\<close>

theorem handle_call_tool_always_text:
  "(\<exists>t. fst (handle_call_tool e name arguments) = Inr [TextContent t])
   \<and> (name \<notin> set TOOL_NAMES \<longrightarrow>
        handle_call_tool e name arguments
          = (Inr [TextContent (''[ERROR] Unknown tool: '' @ name)], []))
   \<and> (\<forall>m ex. tool_try e name (or_empty arguments) = Some m \<and> fst m = Inl ex \<longrightarrow>
        (\<exists>t. fst (handle_call_tool e name arguments) = Inr [TextContent t]
             \<and> prefix ''[ERROR]'' t \<and> suffix (exn_str ex) t))
   \<and> (\<forall>cl r ex. RizeClient e None = Inr cl \<and> r \<in> set (snd (handle_call_tool e name arguments))
          \<and> fst (execute_query e cl (fst r) (snd r)) = Inl ex \<longrightarrow>
        (\<exists>t. fst (handle_call_tool e name arguments) = Inr [TextContent t]
             \<and> prefix ''[ERROR]'' t \<and> suffix (exn_str ex) t))"
proof (cases "tool_try e name (or_empty arguments)")
  case None
  then have "name \<notin> set TOOL_NAMES" by (simp add: tool_try_None)
  from handle_call_tool_unknown [OF this] None show ?thesis by simp
next
  case (Some m)
  then have known: "name \<in> set TOOL_NAMES" using tool_try_None [of e name "or_empty arguments"] by auto
  from handle_call_tool_known [OF Some] obtain p where p: "prefix ''[ERROR]'' p"
    and h: "handle_call_tool e name arguments =
           (case io_try m (\<lambda>ex. p @ exn_str ex) of
              (r, calls) \<Rightarrow> (map_sum id (\<lambda>t. [TextContent t]) r, calls))"
    by blast
  have calls: "snd (handle_call_tool e name arguments) = snd m"
    by (simp add: h snd_io_try split: prod.splits) (metis snd_conv snd_io_try)
  have raised: "\<And>ex. fst m = Inl ex \<Longrightarrow>
      fst (handle_call_tool e name arguments) = Inr [TextContent (p @ exn_str ex)]"
    by (simp add: h io_try_Inl)
  have returned: "\<And>t. fst m = Inr t \<Longrightarrow>
      fst (handle_call_tool e name arguments) = Inr [TextContent t]"
    by (simp add: h io_try_Inr split: prod.splits) (metis fst_conv map_sum.simps(2))
  have total: "\<exists>t. fst (handle_call_tool e name arguments) = Inr [TextContent t]"
    using raised returned by (cases "fst m") auto
  have c3: "\<And>ex. fst m = Inl ex \<Longrightarrow> \<exists>t. fst (handle_call_tool e name arguments) = Inr [TextContent t]
             \<and> prefix ''[ERROR]'' t \<and> suffix (exn_str ex) t"
    using raised p by (auto simp: suffix_def intro: prefix_order.trans)
  have c4: "\<exists>t. fst (handle_call_tool e name arguments) = Inr [TextContent t]
             \<and> prefix ''[ERROR]'' t \<and> suffix (exn_str ex) t"
    if "RizeClient e None = Inr cl" "r \<in> set (snd (handle_call_tool e name arguments))"
       "fst (execute_query e cl (fst r) (snd r)) = Inl ex" for cl r ex
  proof -
    from tool_try_api_failure [OF Some that(1) _ that(3)] that(2) calls
    consider "fst m = Inl ex" | "fst m = Inr (''[ERROR] Connection failed: '' @ exn_str ex)"
      by auto
    then show ?thesis
    proof cases
      case 1
      then show ?thesis by (rule c3)
    next
      case 2
      from returned [OF this] show ?thesis by (simp add: suffix_def)
    qed
  qed
  from total known c3 c4 Some show ?thesis by auto
qed


text \<open>Instances of C4: an unknown tool, a handler that raises because no token is
  configured, and a request that times out.\<close>

theorem handle_call_tool_always_text_witness:
  "handle_call_tool (sample_env (\<lambda>q. ConnectTimeout)) ''delete_everything'' VNone
     = (Inr [TextContent ''[ERROR] Unknown tool: delete_everything''], [])
   \<and> (\<exists>t. fst (handle_call_tool (sample_env (\<lambda>q. ConnectTimeout)\<lparr>getenv_token := None\<rparr>)
                  ''list_projects'' VNone) = Inr [TextContent t]
          \<and> prefix ''[ERROR]'' t \<and> suffix MSG_TOKEN_MISSING t)
   \<and> (\<exists>t. fst (handle_call_tool (sample_env (\<lambda>q. ConnectTimeout)) ''get_current_session'' VNone)
              = Inr [TextContent t]
          \<and> prefix ''[ERROR]'' t \<and> suffix MSG_TIMEOUT t)"
proof -
  let ?e = "sample_env (\<lambda>q. ConnectTimeout)"
  let ?e' = "?e\<lparr>getenv_token := None\<rparr>"
  have a: "handle_call_tool ?e ''delete_everything'' VNone
     = (Inr [TextContent ''[ERROR] Unknown tool: delete_everything''], [])"
    using handle_call_tool_always_text [of ?e "''delete_everything''" VNone]
    by (simp add: TOOL_NAMES_def)
  have "tool_try ?e' ''list_projects'' (or_empty VNone) = Some (list_projects_try ?e' (VDict []))"
    and "fst (list_projects_try ?e' (VDict [])) = Inl (ValueError MSG_TOKEN_MISSING)"
    by (simp_all add: tool_try_def or_empty_def list_projects_try_def io_bind_lift RizeClient_def
        sample_env_def)
  then have b: "\<exists>t. fst (handle_call_tool ?e' ''list_projects'' VNone) = Inr [TextContent t]
          \<and> prefix ''[ERROR]'' t \<and> suffix MSG_TOKEN_MISSING t"
    using handle_call_tool_always_text [of ?e' "''list_projects''" VNone]
    by (metis exn_str.simps(1))
  have cl: "RizeClient ?e None = Inr sample_client"
    by (simp add: RizeClient_def sample_env_def sample_client_def)
  have sent: "(GetCurrentSession, VDict []) \<in> set (snd (handle_call_tool ?e ''get_current_session'' VNone))"
    by (simp add: handle_call_tool_def get_current_session_handler_def get_current_session_try_def
        io_bind_lift io_bind_then_lift snd_io_try cl perform_def get_current_session_request_def
        execute_query_def fst_lift snd_lift)
  have failed: "fst (execute_query ?e sample_client (fst (GetCurrentSession, VDict []))
                   (snd (GetCurrentSession, VDict []))) = Inl (ConnectionError MSG_TIMEOUT)"
    by (simp add: execute_query_def sample_env_def)
  have c: "\<exists>t. fst (handle_call_tool ?e ''get_current_session'' VNone) = Inr [TextContent t]
          \<and> prefix ''[ERROR]'' t \<and> suffix MSG_TIMEOUT t"
    using handle_call_tool_always_text [of ?e "''get_current_session''" VNone] cl sent failed
    by (metis exn_str.simps(2))
  from a b c show ?thesis by blast
qed

subsection \<open>The two steps of \<open>stop_session_timer\<close>\<close>

lemma snd_execute_query: "snd (execute_query e cl q v) = [(q, or_empty v)]"
  by (simp add: execute_query_def or_empty_def Let_def)

lemma stop_handler_unconfirmed:
  assumes "RizeClient e None = Inr cl" "py_get args ''confirm'' (VBool False) = Inr confirm"
    and "\<not> truthy confirm"
  shows "stop_session_timer_try e args =
           (exn_bind (fst (execute_query e cl GetCurrentSession VNone)) stop_confirmation_text,
            [(GetCurrentSession, VDict [])])"
  using assms
  by (simp add: stop_session_timer_try_def io_bind_lift io_bind_then_lift perform_def
      get_current_session_request_def snd_execute_query or_empty_def)

lemma stop_handler_confirmed:
  assumes "RizeClient e None = Inr cl" "py_get args ''confirm'' (VBool False) = Inr confirm"
    and "truthy confirm"
  shows "stop_session_timer_try e args =
           (exn_bind (fst (execute_query e cl StopSessionTimer (VDict [(''input'', VDict [])])))
              stop_session_timer_text,
            [(StopSessionTimer, VDict [(''input'', VDict [])])])"
  using assms
  by (simp add: stop_session_timer_try_def io_bind_lift io_bind_then_lift perform_def
      stop_session_timer_request_def snd_execute_query or_empty_def)

lemma stop_confirmation_text_session:
  assumes "map_of result ''data'' = Some (VDict d)"
    and "map_of d ''currentSession'' = Some (VDict session)" "session \<noteq> []"
    and "map_of session ''id'' = Some sid" "map_of session ''title'' = Some title"
  shows "\<exists>a b c. stop_confirmation_text (VDict result)
           = Inr (a @ py_str sid @ b @ py_str title @ c @ MSG_STOP_REINVOKE)"
  using assms
  apply (simp add: stop_confirmation_text_def exn_bind_def)
  apply (rule exI [of _ "MSG_STOP_HEAD @ MSG_STOP_ID"])
  apply (rule exI [of _ "[newline_char] @ MSG_STOP_TITLE"])
  apply (rule exI)
  apply (simp (no_asm))
  done

lemma reinvoke_names_confirm: "sublist ''confirm=true'' MSG_STOP_REINVOKE"
  unfolding MSG_STOP_REINVOKE_def
  by (intro suffix_imp_sublist) (simp add: suffix_def)

lemma stop_confirmation_text_none:
  assumes "map_of result ''data'' = Some (VDict d)"
    and "map_of d ''currentSession'' = None \<or> map_of d ''currentSession'' = Some VNone"
  shows "stop_confirmation_text (VDict result) = Inr MSG_NOTHING_TO_STOP"
  using assms
  by (auto simp: stop_confirmation_text_def exn_bind_def)

lemma stop_session_timer_text_success:
  assumes "map_of result ''data'' = Some (VDict d)"
    and "map_of d ''stopSessionTimer'' = Some (VDict p)" "map_of p ''errors'' = None"
    and "map_of p ''session'' = Some (VDict session)" "session \<noteq> []"
    and "map_of session ''id'' = Some sid" "map_of session ''endTime'' = Some end_time"
  shows "stop_session_timer_text (VDict result)
           = Inr (''[SUCCESS] Timer stopped! Session ID: '' @ py_str sid @ '', End time: ''
                  @ py_str end_time)"
  using assms
  by (simp add: stop_session_timer_text_def payload_def exn_bind_def)

text \<open>The stop mutation selects the field \<open>errors\<close>, so the answer holds it also when
  the timer was stopped; the handler takes its presence for a failure.\<close>

lemma stop_session_timer_text_errors:
  assumes "map_of result ''data'' = Some (VDict d)"
    and "map_of d ''stopSessionTimer'' = Some (VDict p)" "map_of p ''errors'' = Some v"
  shows "stop_session_timer_text (VDict result)
         = exn_bind (exn_bind (py_iter v) (map_exn (\<lambda>err. py_getitem err ''message'')))
             (\<lambda>ms. Inr (''[ERROR] Failed to stop timer: '' @ py_str (VList ms)))"
  using assms
  by (simp add: stop_session_timer_text_def payload_def payload_error_messages_def exn_bind_def
      split: sum.splits)

lemma stop_handler_errors_key:
  assumes "RizeClient e None = Inr cl" "py_get args ''confirm'' (VBool False) = Inr confirm"
    and "truthy confirm"
    and "fst (execute_query e cl StopSessionTimer (VDict [(''input'', VDict [])])) = Inr (VDict result)"
    and "map_of result ''data'' = Some (VDict d)"
    and "map_of d ''stopSessionTimer'' = Some (VDict p)" "map_of p ''errors'' = Some v"
  shows "(\<exists>t. fst (stop_session_timer_handler e args) = Inr (''[ERROR] Failed to '' @ t))
       \<and> (v = VList [] \<longrightarrow>
            fst (stop_session_timer_handler e args) = Inr ''[ERROR] Failed to stop timer: []'')
       \<and> (v = VNone \<longrightarrow>
            fst (stop_session_timer_handler e args)
              = Inr (''[ERROR] Failed to process stop request: ''
                     @ exn_str (TypeError (quoted ''NoneType'' @ '' object is not iterable''))))"
proof -
  note t = stop_session_timer_text_errors [OF assms(5-7)]
  from stop_handler_confirmed [OF assms(1-3)] assms(4)
  have f: "fst (stop_session_timer_try e args) = stop_session_timer_text (VDict result)"
    by (simp add: exn_bind_def)
  have 1: "\<exists>t. fst (stop_session_timer_handler e args) = Inr (''[ERROR] Failed to '' @ t)"
  proof (cases "stop_session_timer_text (VDict result)")
    case (Inl ex)
    with f have "fst (stop_session_timer_handler e args)
        = Inr (''[ERROR] Failed to '' @ ''process stop request: '' @ exn_str ex)"
      by (simp add: stop_session_timer_handler_def io_try_Inl)
    then show ?thesis by blast
  next
    case (Inr x)
    with t obtain ms where "x = ''[ERROR] Failed to '' @ ''stop timer: '' @ py_str (VList ms)"
      by (auto simp: exn_bind_def split: sum.splits)
    with Inr f have "fst (stop_session_timer_handler e args)
        = Inr (''[ERROR] Failed to '' @ ''stop timer: '' @ py_str (VList ms))"
      by (simp add: stop_session_timer_handler_def io_try_Inr)
    then show ?thesis by blast
  qed
  have 2: "fst (stop_session_timer_handler e args) = Inr ''[ERROR] Failed to stop timer: []''"
    if "v = VList []"
    using t f that by (simp add: stop_session_timer_handler_def io_try_Inr exn_bind_def py_str_def)
  have 3: "fst (stop_session_timer_handler e args)
              = Inr (''[ERROR] Failed to process stop request: ''
                     @ exn_str (TypeError (quoted ''NoneType'' @ '' object is not iterable'')))"
    if "v = VNone"
    using t f that by (simp add: stop_session_timer_handler_def io_try_Inl exn_bind_def)
  from 1 2 3 show ?thesis by blast
qed

text \<open>
  Claim C3. With a configured token and an argument mapping: when \<open>confirm\<close> is absent
  or false, \<open>stop_session_timer\<close> sends the query for the current session and nothing
  else, so no mutation; if the answer holds a current session with an id and a title,
  the text contains that id, that title and \<open>confirm=true\<close>, the parameter to call
  again with; if the answer holds no current session, the text says that nothing needs
  stopping. When \<open>confirm\<close> is true it sends the stop mutation and nothing else. On an
  answer with the stopped session and no \<open>errors\<close> entry the text is the success
  message with the session's id and end time; on an answer with an \<open>errors\<close> entry,
  whatever its value and whether or not the session is there, the text is an error
  text: \<open>[ERROR] Failed to stop timer: []\<close> for the empty list of a stop that
  succeeded.
\<close>

theorem stop_session_timer_two_steps:
  assumes "RizeClient e None = Inr cl" "py_get args ''confirm'' (VBool False) = Inr confirm"
  shows "(\<not> truthy confirm \<longrightarrow>
            snd (stop_session_timer_handler e args) = [(GetCurrentSession, VDict [])])
       \<and> (\<forall>result d session sid title.
            \<not> truthy confirm
            \<and> fst (execute_query e cl GetCurrentSession VNone) = Inr (VDict result)
            \<and> map_of result ''data'' = Some (VDict d)
            \<and> map_of d ''currentSession'' = Some (VDict session) \<and> session \<noteq> []
            \<and> map_of session ''id'' = Some sid \<and> map_of session ''title'' = Some title \<longrightarrow>
            (\<exists>t. fst (stop_session_timer_handler e args) = Inr t
                 \<and> sublist (py_str sid) t \<and> sublist (py_str title) t
                 \<and> sublist ''confirm=true'' t))
       \<and> (\<forall>result d.
            \<not> truthy confirm
            \<and> fst (execute_query e cl GetCurrentSession VNone) = Inr (VDict result)
            \<and> map_of result ''data'' = Some (VDict d)
            \<and> (map_of d ''currentSession'' = None \<or> map_of d ''currentSession'' = Some VNone) \<longrightarrow>
            fst (stop_session_timer_handler e args) = Inr MSG_NOTHING_TO_STOP)
       \<and> (truthy confirm \<longrightarrow>
            snd (stop_session_timer_handler e args)
              = [(StopSessionTimer, VDict [(''input'', VDict [])])])
       \<and> (\<forall>result d p session sid end_time.
            truthy confirm
            \<and> fst (execute_query e cl StopSessionTimer (VDict [(''input'', VDict [])]))
                = Inr (VDict result)
            \<and> map_of result ''data'' = Some (VDict d)
            \<and> map_of d ''stopSessionTimer'' = Some (VDict p) \<and> map_of p ''errors'' = None
            \<and> map_of p ''session'' = Some (VDict session) \<and> session \<noteq> []
            \<and> map_of session ''id'' = Some sid \<and> map_of session ''endTime'' = Some end_time \<longrightarrow>
            fst (stop_session_timer_handler e args)
              = Inr (''[SUCCESS] Timer stopped! Session ID: '' @ py_str sid @ '', End time: ''
                     @ py_str end_time))
       \<and> (\<forall>result d p v.
            truthy confirm
            \<and> fst (execute_query e cl StopSessionTimer (VDict [(''input'', VDict [])]))
                = Inr (VDict result)
            \<and> map_of result ''data'' = Some (VDict d)
            \<and> map_of d ''stopSessionTimer'' = Some (VDict p) \<and> map_of p ''errors'' = Some v \<longrightarrow>
            (\<exists>t. fst (stop_session_timer_handler e args) = Inr (''[ERROR] Failed to '' @ t))
            \<and> (v = VList [] \<longrightarrow>
                 fst (stop_session_timer_handler e args) = Inr ''[ERROR] Failed to stop timer: []'')
            \<and> (v = VNone \<longrightarrow>
                 fst (stop_session_timer_handler e args)
                   = Inr (''[ERROR] Failed to process stop request: ''
                          @ exn_str (TypeError (quoted ''NoneType'' @ '' object is not iterable'')))))"
proof (intro conjI allI impI)
  assume "\<not> truthy confirm"
  from stop_handler_unconfirmed [OF assms this]
  show "snd (stop_session_timer_handler e args) = [(GetCurrentSession, VDict [])]"
    by (simp add: stop_session_timer_handler_def snd_io_try)
next
  fix result d session sid title
  assume h: "\<not> truthy confirm
            \<and> fst (execute_query e cl GetCurrentSession VNone) = Inr (VDict result)
            \<and> map_of result ''data'' = Some (VDict d)
            \<and> map_of d ''currentSession'' = Some (VDict session) \<and> session \<noteq> []
            \<and> map_of session ''id'' = Some sid \<and> map_of session ''title'' = Some title"
  then obtain a b c where "stop_confirmation_text (VDict result)
           = Inr (a @ py_str sid @ b @ py_str title @ c @ MSG_STOP_REINVOKE)"
    using stop_confirmation_text_session by blast
  with h stop_handler_unconfirmed [OF assms]
  have t: "fst (stop_session_timer_handler e args)
           = Inr (a @ py_str sid @ b @ py_str title @ c @ MSG_STOP_REINVOKE)"
    by (simp add: stop_session_timer_handler_def io_try_Inr exn_bind_def)
  have "sublist (py_str sid) (a @ py_str sid @ b @ py_str title @ c @ MSG_STOP_REINVOKE)"
    by (rule sublist_appendI)
  moreover have "sublist (py_str title) (a @ py_str sid @ b @ py_str title @ c @ MSG_STOP_REINVOKE)"
    using sublist_appendI [of "py_str title" "a @ py_str sid @ b" "c @ MSG_STOP_REINVOKE"] by simp
  moreover have "sublist ''confirm=true'' (a @ py_str sid @ b @ py_str title @ c @ MSG_STOP_REINVOKE)"
    using reinvoke_names_confirm by (simp add: sublist_append)
  ultimately show "\<exists>t. fst (stop_session_timer_handler e args) = Inr t
                 \<and> sublist (py_str sid) t \<and> sublist (py_str title) t
                 \<and> sublist ''confirm=true'' t"
    using t by blast
next
  fix result d
  assume h: "\<not> truthy confirm
            \<and> fst (execute_query e cl GetCurrentSession VNone) = Inr (VDict result)
            \<and> map_of result ''data'' = Some (VDict d)
            \<and> (map_of d ''currentSession'' = None \<or> map_of d ''currentSession'' = Some VNone)"
  then have "stop_confirmation_text (VDict result) = Inr MSG_NOTHING_TO_STOP"
    using stop_confirmation_text_none by blast
  with h stop_handler_unconfirmed [OF assms]
  show "fst (stop_session_timer_handler e args) = Inr MSG_NOTHING_TO_STOP"
    by (simp add: stop_session_timer_handler_def io_try_Inr exn_bind_def)
next
  assume "truthy confirm"
  from stop_handler_confirmed [OF assms this]
  show "snd (stop_session_timer_handler e args) = [(StopSessionTimer, VDict [(''input'', VDict [])])]"
    by (simp add: stop_session_timer_handler_def snd_io_try)
next
  fix result d p session sid end_time
  assume h: "truthy confirm
            \<and> fst (execute_query e cl StopSessionTimer (VDict [(''input'', VDict [])]))
                = Inr (VDict result)
            \<and> map_of result ''data'' = Some (VDict d)
            \<and> map_of d ''stopSessionTimer'' = Some (VDict p) \<and> map_of p ''errors'' = None
            \<and> map_of p ''session'' = Some (VDict session) \<and> session \<noteq> []
            \<and> map_of session ''id'' = Some sid \<and> map_of session ''endTime'' = Some end_time"
  then have "stop_session_timer_text (VDict result)
           = Inr (''[SUCCESS] Timer stopped! Session ID: '' @ py_str sid @ '', End time: ''
                  @ py_str end_time)"
    using stop_session_timer_text_success by blast
  with h stop_handler_confirmed [OF assms]
  show "fst (stop_session_timer_handler e args)
              = Inr (''[SUCCESS] Timer stopped! Session ID: '' @ py_str sid @ '', End time: ''
                     @ py_str end_time)"
    by (simp add: stop_session_timer_handler_def io_try_Inr exn_bind_def)
next
  fix result d p v
  assume "truthy confirm
            \<and> fst (execute_query e cl StopSessionTimer (VDict [(''input'', VDict [])]))
                = Inr (VDict result)
            \<and> map_of result ''data'' = Some (VDict d)
            \<and> map_of d ''stopSessionTimer'' = Some (VDict p) \<and> map_of p ''errors'' = Some v"
  then show "\<exists>t. fst (stop_session_timer_handler e args) = Inr (''[ERROR] Failed to '' @ t)"
    using stop_handler_errors_key [OF assms, of result d p v] by blast
next
  fix result d p v
  assume "truthy confirm
            \<and> fst (execute_query e cl StopSessionTimer (VDict [(''input'', VDict [])]))
                = Inr (VDict result)
            \<and> map_of result ''data'' = Some (VDict d)
            \<and> map_of d ''stopSessionTimer'' = Some (VDict p) \<and> map_of p ''errors'' = Some v"
    and "v = VList []"
  then show "fst (stop_session_timer_handler e args) = Inr ''[ERROR] Failed to stop timer: []''"
    using stop_handler_errors_key [OF assms, of result d p v] by blast
next
  fix result d p v
  assume "truthy confirm
            \<and> fst (execute_query e cl StopSessionTimer (VDict [(''input'', VDict [])]))
                = Inr (VDict result)
            \<and> map_of result ''data'' = Some (VDict d)
            \<and> map_of d ''stopSessionTimer'' = Some (VDict p) \<and> map_of p ''errors'' = Some v"
    and "v = VNone"
  then show "fst (stop_session_timer_handler e args)
                   = Inr (''[ERROR] Failed to process stop request: ''
                          @ exn_str (TypeError (quoted ''NoneType'' @ '' object is not iterable'')))"
    using stop_handler_errors_key [OF assms, of result d p v] by blast
qed


text \<open>Instances of C3: the sample session unconfirmed, no session, the sample session
  confirmed and answered without an \<open>errors\<close> entry, and the same answered with the
  empty list of errors.\<close>

theorem stop_session_timer_two_steps_witness:
  "snd (stop_session_timer_handler (sample_env sample_upstream) (VDict []))
     = [(GetCurrentSession, VDict [])]
   \<and> (\<exists>t. fst (stop_session_timer_handler (sample_env sample_upstream) (VDict [])) = Inr t
          \<and> sublist ''s-17'' t \<and> sublist ''Deep work'' t \<and> sublist ''confirm=true'' t)
   \<and> fst (stop_session_timer_handler (sample_env idle_upstream) (VDict [(''confirm'', VBool False)]))
       = Inr MSG_NOTHING_TO_STOP
   \<and> stop_session_timer_handler (sample_env sample_upstream) (VDict [(''confirm'', VBool True)])
       = (Inr ''[SUCCESS] Timer stopped! Session ID: s-17, End time: 2024-07-21T10:30:00Z'',
          [(StopSessionTimer, VDict [(''input'', VDict [])])])
   \<and> stop_session_timer_handler (sample_env stopped_with_errors_field)
         (VDict [(''confirm'', VBool True)])
       = (Inr ''[ERROR] Failed to stop timer: []'',
          [(StopSessionTimer, VDict [(''input'', VDict [])])])"
proof -
  have cl: "\<And>u. RizeClient (sample_env u) None = Inr sample_client"
    by (simp add: RizeClient_def sample_env_def sample_client_def)
  have absent: "py_get (VDict []) ''confirm'' (VBool False) = Inr (VBool False)"
    and no: "py_get (VDict [(''confirm'', VBool False)]) ''confirm'' (VBool False) = Inr (VBool False)"
    and yes: "py_get (VDict [(''confirm'', VBool True)]) ''confirm'' (VBool False) = Inr (VBool True)"
    by simp_all
  have current: "fst (execute_query (sample_env sample_upstream) sample_client GetCurrentSession VNone)
      = Inr (VDict [(''data'', VDict [(''currentSession'', sample_session)])])"
    and idle: "fst (execute_query (sample_env idle_upstream) sample_client GetCurrentSession VNone)
      = Inr (VDict [(''data'', VDict [(''currentSession'', VNone)])])"
    and stopped: "fst (execute_query (sample_env sample_upstream) sample_client StopSessionTimer
                         (VDict [(''input'', VDict [])]))
      = Inr (VDict [(''data'', VDict [(''stopSessionTimer'', VDict [(''session'', sample_session)])])])"
    by (simp_all add: execute_query_def sample_env_def sample_upstream_def idle_upstream_def
        ok_response_def check_graphql_errors_def exn_bind_def)
  have stopped': "fst (execute_query (sample_env stopped_with_errors_field) sample_client
                         StopSessionTimer (VDict [(''input'', VDict [])]))
      = Inr (VDict [(''data'',
                     VDict [(''stopSessionTimer'',
                             VDict [(''session'', sample_session), (''errors'', VList [])])])])"
    by (simp add: execute_query_def sample_env_def stopped_with_errors_field_def
        ok_response_def check_graphql_errors_def exn_bind_def)
  note t4 = stop_session_timer_two_steps [OF cl yes, of stopped_with_errors_field]
  note t1 = stop_session_timer_two_steps [OF cl absent, of sample_upstream]
  note t2 = stop_session_timer_two_steps [OF cl no, of idle_upstream]
  note t3 = stop_session_timer_two_steps [OF cl yes, of sample_upstream]
  have a: "snd (stop_session_timer_handler (sample_env sample_upstream) (VDict []))
     = [(GetCurrentSession, VDict [])]"
    using t1 by simp
  have b: "\<exists>t. fst (stop_session_timer_handler (sample_env sample_upstream) (VDict [])) = Inr t
          \<and> sublist ''s-17'' t \<and> sublist ''Deep work'' t \<and> sublist ''confirm=true'' t"
    using t1 [THEN conjunct2, THEN conjunct1, rule_format,
        of "[(''data'', VDict [(''currentSession'', sample_session)])]"
           "[(''currentSession'', sample_session)]"
           "[(''id'', VStr ''s-17''), (''title'', VStr ''Deep work''), (''type'', VStr ''focus''),
            (''startTime'', VStr ''2024-07-21T09:00:00Z''),
            (''endTime'', VStr ''2024-07-21T10:30:00Z'')]"
           "VStr ''s-17''" "VStr ''Deep work''"] current
    by (simp add: sample_session_def py_str_def)
  have c: "fst (stop_session_timer_handler (sample_env idle_upstream) (VDict [(''confirm'', VBool False)]))
       = Inr MSG_NOTHING_TO_STOP"
    using t2 [THEN conjunct2, THEN conjunct2, THEN conjunct1, rule_format,
        of "[(''data'', VDict [(''currentSession'', VNone)])]" "[(''currentSession'', VNone)]"] idle
    by simp
  have d: "snd (stop_session_timer_handler (sample_env sample_upstream) (VDict [(''confirm'', VBool True)]))
       = [(StopSessionTimer, VDict [(''input'', VDict [])])]"
    using t3 by simp
  have e: "fst (stop_session_timer_handler (sample_env sample_upstream) (VDict [(''confirm'', VBool True)]))
       = Inr ''[SUCCESS] Timer stopped! Session ID: s-17, End time: 2024-07-21T10:30:00Z''"
    using t3 [THEN conjunct2, THEN conjunct2, THEN conjunct2, THEN conjunct2, THEN conjunct1,
        rule_format,
        of "[(''data'', VDict [(''stopSessionTimer'', VDict [(''session'', sample_session)])])]"
           "[(''stopSessionTimer'', VDict [(''session'', sample_session)])]"
           "[(''session'', sample_session)]"
           "[(''id'', VStr ''s-17''), (''title'', VStr ''Deep work''), (''type'', VStr ''focus''),
            (''startTime'', VStr ''2024-07-21T09:00:00Z''),
            (''endTime'', VStr ''2024-07-21T10:30:00Z'')]"
           "VStr ''s-17''" "VStr ''2024-07-21T10:30:00Z''"] stopped
    by (simp add: sample_session_def py_str_def)
  have f: "snd (stop_session_timer_handler (sample_env stopped_with_errors_field)
                  (VDict [(''confirm'', VBool True)]))
       = [(StopSessionTimer, VDict [(''input'', VDict [])])]"
    using t4 by simp
  have g: "fst (stop_session_timer_handler (sample_env stopped_with_errors_field)
                  (VDict [(''confirm'', VBool True)]))
       = Inr ''[ERROR] Failed to stop timer: []''"
    using t4 [THEN conjunct2, THEN conjunct2, THEN conjunct2, THEN conjunct2, THEN conjunct2,
        rule_format, THEN conjunct2, THEN conjunct1, rule_format,
        of "[(''data'',
              VDict [(''stopSessionTimer'',
                      VDict [(''session'', sample_session), (''errors'', VList [])])])]"
           "[(''stopSessionTimer'', VDict [(''session'', sample_session), (''errors'', VList [])])]"
           "[(''session'', sample_session), (''errors'', VList [])]" "VList []"] stopped'
    by simp
  from a b c d e f g show ?thesis
    by (simp add: prod_eq_iff)
qed

subsection \<open>The validation gate of \<open>create_session\<close>\<close>

text \<open>The definitions that evaluate a parse, an addition and a rendering on concrete
  values.\<close>

lemmas strptime_eval =
  FORMATS_def strptime_def codepoints_def codepoint_def lead_length_def continuation_def
  List.map_filter_def digit_def just_def int_of_text_def caseless_eq_def is_whitespace_def
  WHITESPACE_def decimal_def DIGIT_ZEROS_def datetime_new_def valid_datetime_def
  days_in_month_def DAYS_IN_MONTH_def is_leap_def Let_def remove_Z_def

lemmas datetime_eval =
  datetime_add_def datetime_sub_timedelta_def timedelta_new_def to_us_def toordinal_def
  time_of_day_us_def ymd2ord_def ord2ymd_def days_before_year_def days_before_month_def
  DAYS_BEFORE_MONTH_def DAYS_IN_MONTH_def is_leap_def US_PER_DAY_def US_PER_SECOND_def
  MAXORDINAL_def exn_bind_def Let_def

lemmas isoformat_eval =
  isoformat_def fmt_d_def str_nat.simps digit_char_def format_offset_def

lemma parse_nine_o_clock: "parse_time_string e (VStr ''2024-07-21 09:00'') = Inr nine_o_clock"
  by (simp add: parse_time_string_def nine_o_clock_def exn_bind_def strptime_eval)

lemma nine_o_clock_plus_zero: "datetime_add nine_o_clock 0 = Inr nine_o_clock"
  by (simp add: nine_o_clock_def datetime_eval)

lemma isoformat_nine_o_clock: "isoformat nine_o_clock = ''2024-07-21T09:00:00''"
  by (simp add: nine_o_clock_def isoformat_eval)

lemma validate_zero_duration: "validate_session_params zero_duration_args = Inr (False, [])"
  by (simp add: zero_duration_args_def validate_session_params_def exn_bind_def
      duration_unreasonable_def)

lemma zero_duration_request:
  "create_session_request e (Some (VStr ''focus'')) (VStr ''Focus'') VNone (Some (VInt 0))
                   (VStr ''2024-07-21 09:00'') VNone
   = Inr (CreateSession,
          VDict [(''input'', VDict [(''args'',
            VDict [(''startTime'', VStr ''2024-07-21T09:00:00Z''),
                   (''endTime'', VStr ''2024-07-21T09:00:00Z''),
                   (''title'', VStr ''Focus'')])])])"
  by (simp add: create_session_request_def create_session_window_def default_def
      parse_nine_o_clock exn_bind_def US_PER_SECOND_def timedelta_new_def US_PER_DAY_def
      nine_o_clock_plus_zero isoformat_nine_o_clock set_if_truthy_def)

text \<open>
  Claim C2 fails on the code for a duration of 0 minutes, which lies outside 5..480:
  \<open>duration_minutes and (...)\<close> skips the range check for a value that is false as a
  condition, and 0 is. With a title, a start time and \<open>duration_minutes = 0\<close> the
  validation asks for no confirmation, and the handler calls the API with a session
  that starts and ends at the same instant.
\<close>

theorem create_session_zero_duration_reaches_api:
  "validate_session_params zero_duration_args = Inr (False, [])
   \<and> create_session_handler (sample_env sample_upstream) zero_duration_args
     = (Inr ''[SUCCESS] Session created: Deep work (ID: s-17, Type: focus, Duration: 2024-07-21T09:00:00Z to 2024-07-21T10:30:00Z)'',
        [(CreateSession,
          VDict [(''input'', VDict [(''args'',
            VDict [(''startTime'', VStr ''2024-07-21T09:00:00Z''),
                   (''endTime'', VStr ''2024-07-21T09:00:00Z''),
                   (''title'', VStr ''Focus'')])])])])"
proof -
  have cl: "RizeClient (sample_env sample_upstream) None = Inr sample_client"
    by (simp add: RizeClient_def sample_env_def sample_client_def)
  have args: "py_get zero_duration_args ''session_type'' (VStr ''focus'') = Inr (VStr ''focus'')"
    "py_get zero_duration_args ''title'' VNone = Inr (VStr ''Focus'')"
    "py_get zero_duration_args ''description'' VNone = Inr VNone"
    "py_get zero_duration_args ''duration_minutes'' (VInt 90) = Inr (VInt 0)"
    "py_get zero_duration_args ''start_time'' VNone = Inr (VStr ''2024-07-21 09:00'')"
    "py_get zero_duration_args ''end_time'' VNone = Inr VNone"
    by (simp_all add: zero_duration_args_def)
  have answer: "create_session_text
      (VDict [(''data'', VDict [(''createSession'', VDict [(''session'', sample_session)])])])
     = Inr ''[SUCCESS] Session created: Deep work (ID: s-17, Type: focus, Duration: 2024-07-21T09:00:00Z to 2024-07-21T10:30:00Z)''"
    by (simp add: create_session_text_def payload_def exn_bind_def sample_session_def py_str_def)
  have upstream: "\<And>tok v. post (sample_env sample_upstream) tok CreateSession v
      = Response 200 [] (Inr (VDict [(''data'', VDict [(''createSession'', VDict [(''session'', sample_session)])])]))"
    by (simp add: sample_env_def sample_upstream_def ok_response_def)
  have clean: "check_graphql_errors (VDict [(''data'', VDict [(''createSession'', VDict [(''session'', sample_session)])])])
      = Inr (VDict [(''data'', VDict [(''createSession'', VDict [(''session'', sample_session)])])])"
    by (simp add: check_graphql_errors_def exn_bind_def)
  show ?thesis
    by (simp add: validate_zero_duration create_session_handler_def create_session_try_def
        io_bind_lift io_bind_then_lift cl args zero_duration_request perform_def
        execute_query_def upstream clean exn_bind_def answer io_try_def)
qed

subsection \<open>Operations as functions of their arguments\<close>




lemma truthy_not_None: "truthy v \<Longrightarrow> v \<noteq> VNone"
  by auto








subsection \<open>The timestamps that \<open>create_session\<close> sends\<close>

lemma offset_text_no_format: "try_formats FORMATS (remove_Z offset_text) = Inr None"
  by (simp add: offset_text_def strptime_eval)

lemma parse_offset_text:
  "fromisoformat e offset_text = Some offset_datetime \<Longrightarrow>
   parse_time_string e (VStr offset_text) = Inr offset_datetime"
  using offset_text_no_format
  by (simp add: parse_time_string_def exn_bind_def) (simp add: offset_text_def remove_Z_def)

lemma offset_datetime_plus_90:
  "datetime_add offset_datetime (90 * 60 * US_PER_SECOND)
   = Inr (offset_datetime\<lparr>hour := 10, minute := 30\<rparr>)"
  by (simp add: offset_datetime_def datetime_eval)

lemma isoformat_offset_datetime:
  "isoformat offset_datetime = ''2024-07-21T09:00:00+08:00''"
  "isoformat (offset_datetime\<lparr>hour := 10, minute := 30\<rparr>) = ''2024-07-21T10:30:00+08:00''"
  by (simp_all add: offset_datetime_def isoformat_eval US_PER_SECOND_def Let_def)

text \<open>
  Claim C8 fails on the code for a start time with a UTC offset. No \<open>strptime\<close> format
  takes the text, \<open>fromisoformat\<close> does and returns a value that carries the offset, and
  \<open>isoformat() + "Z"\<close> then writes the offset and the \<open>Z\<close> one after the other: the
  timestamps sent are not of the ISO-8601 form with a trailing \<open>Z\<close>.
\<close>

theorem create_session_offset_start_is_sent_with_offset_and_Z:
  assumes "fromisoformat e offset_text = Some offset_datetime"
  shows "request_of e (Create_session None VNone VNone None (VStr offset_text) VNone)
         = Inr (CreateSession,
                VDict [(''input'', VDict [(''args'',
                  VDict [(''startTime'', VStr ''2024-07-21T09:00:00+08:00Z''),
                         (''endTime'', VStr ''2024-07-21T10:30:00+08:00Z'')])])])"
  using parse_offset_text [OF assms] offset_datetime_plus_90
  by (simp add: create_session_request_def create_session_window_def default_def exn_bind_def
      timedelta_new_def US_PER_DAY_def US_PER_SECOND_def isoformat_offset_datetime
      set_if_truthy_def offset_text_def)

text \<open>The instance of C8 in an environment whose \<open>fromisoformat\<close> accepts the text.\<close>

theorem create_session_offset_start_is_sent_with_offset_and_Z_witness:
  "request_of (sample_env sample_upstream\<lparr>fromisoformat := offset_parser\<rparr>)
     (Create_session None VNone VNone None (VStr offset_text) VNone)
   = Inr (CreateSession,
          VDict [(''input'', VDict [(''args'',
            VDict [(''startTime'', VStr ''2024-07-21T09:00:00+08:00Z''),
                   (''endTime'', VStr ''2024-07-21T10:30:00+08:00Z'')])])])"
proof -
  have "fromisoformat (sample_env sample_upstream\<lparr>fromisoformat := offset_parser\<rparr>) offset_text
        = Some offset_datetime"
    by (simp add: offset_parser_def)
  then show ?thesis
    by (rule create_session_offset_start_is_sent_with_offset_and_Z)
qed

subsection \<open>The window of \<open>create_session\<close>\<close>

text \<open>The month tables agree: the days before a month and the days of it give the days
  before the next.\<close>

lemma month_tables:
  assumes "2 \<le> m" "m \<le> 12"
  shows "DAYS_BEFORE_MONTH ! nat (m - 1) + (if m - 1 > 2 \<and> L then 1 else 0)
         + (DAYS_IN_MONTH ! nat (m - 1) + (if m - 1 = 2 \<and> L then 1 else 0))
       = DAYS_BEFORE_MONTH ! nat m + (if m > 2 \<and> L then 1 else (0::int))"
proof -
  from assms have "m = 2 \<or> m = 3 \<or> m = 4 \<or> m = 5 \<or> m = 6 \<or> m = 7 \<or> m = 8
    \<or> m = 9 \<or> m = 10 \<or> m = 11 \<or> m = 12"
    by arith
  then show ?thesis
    by (elim disjE) (simp_all add: DAYS_BEFORE_MONTH_def DAYS_IN_MONTH_def)
qed

lemma month_estimate:
  assumes "0 \<le> r" "r < 365"
  shows "1 \<le> (r + 50) div 32" "(r + 50) div 32 \<le> (12::int)"
  using assms by arith+

lemma month_one: "DAYS_BEFORE_MONTH ! nat 1 = 0"
  by (simp add: DAYS_BEFORE_MONTH_def)


text \<open>Years counted in cycles of 400, 100, 4 and 1 years.\<close>

lemma div_cycle: "0 \<le> r \<Longrightarrow> r < q \<Longrightarrow> (q * x + r) div q = (x::int)"
  by (simp add: div_pos_pos_trivial)

lemma mod_cycle: "0 \<le> r \<Longrightarrow> r < q \<Longrightarrow> (q * x + r) mod q = (r::int)"
  by (simp add: mod_pos_pos_trivial)

lemma days_before_year_cycles:
  assumes "0 \<le> b" "b \<le> 3" "0 \<le> c" "c \<le> 24" "0 \<le> k" "k \<le> 3"
  shows "days_before_year (400 * a + 100 * b + 4 * c + k + 1)
         = 146097 * a + 36524 * b + 1461 * c + 365 * k"
proof -
  let ?y = "400 * a + 100 * b + 4 * c + k"
  have "?y = 4 * (100 * a + 25 * b + c) + k" by simp
  then have d4: "?y div 4 = 100 * a + 25 * b + c"
    using div_cycle [of k 4 "100 * a + 25 * b + c"] assms by simp
  have "?y = 100 * (4 * a + b) + (4 * c + k)" by simp
  then have d100: "?y div 100 = 4 * a + b"
    using div_cycle [of "4 * c + k" 100 "4 * a + b"] assms by simp
  have "?y = 400 * a + (100 * b + 4 * c + k)" by simp
  then have d400: "?y div 400 = a"
    using div_cycle [of "100 * b + 4 * c + k" 400 a] assms by simp
  show ?thesis
    by (simp add: days_before_year_def Let_def d4 d100 d400)
qed

lemma is_leap_cycles:
  assumes "0 \<le> b" "b \<le> 3" "0 \<le> c" "c \<le> 24" "0 \<le> k" "k \<le> 3"
  shows "is_leap (400 * a + 100 * b + 4 * c + k + 1) \<longleftrightarrow> k = 3 \<and> (c \<noteq> 24 \<or> b = 3)"
proof -
  let ?y = "400 * a + 100 * b + 4 * c + k + 1"
  have m4: "?y mod 4 = 0 \<longleftrightarrow> k = 3"
  proof (cases "k = 3")
    case True
    then have e: "?y = 4 * (100 * a + 25 * b + c + 1) + 0" by simp
    have "?y mod 4 = 0" unfolding e by (rule mod_cycle) simp_all
    with True show ?thesis by simp
  next
    case False
    have e: "?y = 4 * (100 * a + 25 * b + c) + (k + 1)" by simp
    have "?y mod 4 = k + 1" unfolding e by (rule mod_cycle) (use assms False in auto)
    with False assms show ?thesis by simp
  qed
  have m100: "?y mod 100 = 0 \<longleftrightarrow> k = 3 \<and> c = 24"
  proof (cases "k = 3 \<and> c = 24")
    case True
    then have e: "?y = 100 * (4 * a + b + 1) + 0" by simp
    have "?y mod 100 = 0" unfolding e by (rule mod_cycle) simp_all
    with True show ?thesis by simp
  next
    case False
    have e: "?y = 100 * (4 * a + b) + (4 * c + k + 1)" by simp
    have pos: "0 < 4 * c + k + 1" using assms by simp
    have "?y mod 100 = 4 * c + k + 1" unfolding e by (rule mod_cycle) (use assms False in auto)
    with False pos show ?thesis by simp
  qed
  have m400: "?y mod 400 = 0 \<longleftrightarrow> k = 3 \<and> c = 24 \<and> b = 3"
  proof (cases "k = 3 \<and> c = 24 \<and> b = 3")
    case True
    then have e: "?y = 400 * (a + 1) + 0" by simp
    have "?y mod 400 = 0" unfolding e by (rule mod_cycle) simp_all
    with True show ?thesis by simp
  next
    case False
    have e: "?y = 400 * a + (100 * b + 4 * c + k + 1)" by simp
    have pos: "0 < 100 * b + 4 * c + k + 1" using assms by simp
    have "?y mod 400 = 100 * b + 4 * c + k + 1"
      unfolding e by (rule mod_cycle) (use assms False in auto)
    with False pos show ?thesis by simp
  qed
  show ?thesis
    unfolding is_leap_def m4 m100 m400 by auto
qed


text \<open>The day of the year: the month estimate and its correction.\<close>

lemma month_and_day:
  fixes r :: int and L :: bool
  assumes "0 \<le> r" "r < 365"
  defines "m \<equiv> (r + 50) div 32"
  defines "preceding \<equiv> DAYS_BEFORE_MONTH ! nat m + (if m > 2 \<and> L then 1 else 0)"
  shows "(if preceding > r
          then DAYS_BEFORE_MONTH ! nat (m - 1) + (if m - 1 > 2 \<and> L then 1 else 0)
               + (r - (preceding - (DAYS_IN_MONTH ! nat (m - 1)
                                    + (if m - 1 = 2 \<and> L then 1 else 0))) + 1)
          else DAYS_BEFORE_MONTH ! nat m + (if m > 2 \<and> L then 1 else 0) + (r - preceding + 1))
         = r + 1"
proof (cases "preceding > r")
  case False
  then show ?thesis by (simp add: preceding_def)
next
  case True
  have range: "1 \<le> m" "m \<le> 12" using assms(1,2) unfolding m_def by arith+
  have "m \<noteq> 1" using True assms(1) by (auto simp: preceding_def DAYS_BEFORE_MONTH_def)
  with range have "2 \<le> m" by simp
  from month_tables [OF this range(2), of L] True show ?thesis
    by (simp add: preceding_def)
qed

lemma ymd2ord_ord2ymd:
  assumes "1 \<le> n0"
  shows "(case ord2ymd n0 of (y, m, d) \<Rightarrow> ymd2ord y m d) = n0"
proof -
  define n where "n = n0 - 1"
  define a where "a = n div 146097"
  define r1 where "r1 = n mod 146097"
  define b where "b = r1 div 36524"
  define r2 where "r2 = r1 mod 36524"
  define c where "c = r2 div 1461"
  define r3 where "r3 = r2 mod 1461"
  define k where "k = r3 div 365"
  define r4 where "r4 = r3 mod 365"
  have n: "n = 146097 * a + r1" and r1: "0 \<le> r1" "r1 < 146097"
    by (simp_all add: a_def r1_def)
  have r1s: "r1 = 36524 * b + r2" and r2: "0 \<le> r2" "r2 < 36524"
    by (simp_all add: b_def r2_def)
  have r2s: "r2 = 1461 * c + r3" and r3: "0 \<le> r3" "r3 < 1461"
    by (simp_all add: c_def r3_def)
  have r3s: "r3 = 365 * k + r4" and r4: "0 \<le> r4" "r4 < 365"
    by (simp_all add: k_def r4_def)
  have b: "0 \<le> b" "b \<le> 4" using r1 unfolding b_def by arith+
  have c: "0 \<le> c" "c \<le> 24" using r2 unfolding c_def by arith+
  have k: "0 \<le> k" "k \<le> 4" using r3 unfolding k_def by arith+
  have total: "n0 = 146097 * a + 36524 * b + 1461 * c + 365 * k + r4 + 1"
    using n r1s r2s r3s by (simp add: n_def)
  define y0 where "y0 = a * 400 + 1 + b * 100 + c * 4 + k"
  have ord: "ord2ymd n0 =
     (if k = 4 \<or> b = 4 then (y0 - 1, 12, 31)
         else
           let leapyear = (k = 3 \<and> (c \<noteq> 24 \<or> b = 3));
               m = (r4 + 50) div 32;
               preceding = DAYS_BEFORE_MONTH ! nat m + (if m > 2 \<and> leapyear then 1 else 0)
           in if preceding > r4
              then (y0, m - 1,
                    r4 - (preceding - (DAYS_IN_MONTH ! nat (m - 1)
                                      + (if m - 1 = 2 \<and> leapyear then 1 else 0))) + 1)
              else (y0, m, r4 - preceding + 1))"
    unfolding ord2ymd_def y0_def r4_def k_def r3_def c_def r2_def b_def r1_def a_def n_def Let_def ..
  show ?thesis
  proof (cases "b = 4")
    case True
    with r1s r1 r2 have "r2 = 0" by simp
    then have z: "c = 0" "r3 = 0" "k = 0" "r4 = 0"
      by (simp_all add: c_def r3_def k_def r4_def)
    define Y where "Y = 400 * a + 100 * 3 + 4 * 24 + 3 + 1"
    have y: "y0 - 1 = Y"
      using True z by (simp add: y0_def Y_def)
    have dby: "days_before_year Y = 146097 * a + 36524 * 3 + 1461 * 24 + 365 * 3"
      unfolding Y_def by (rule days_before_year_cycles) simp_all
    have leap: "is_leap Y"
      unfolding Y_def by (subst is_leap_cycles) simp_all
    have "ymd2ord Y 12 31 = n0"
      by (simp add: ymd2ord_def days_before_month_def dby leap DAYS_BEFORE_MONTH_def total True z)
    then show ?thesis
      using True by (simp add: ord y)
  next
    case nb: False
    with b have b3: "b \<le> 3" by simp
    show ?thesis
    proof (cases "k = 4")
      case True
      with r3s r3 r4 have z: "r4 = 0" by simp
      have "c \<noteq> 24" using r2s r2 r3s True z by auto
      with c have c23: "c \<le> 23" by simp
      define Y where "Y = 400 * a + 100 * b + 4 * c + 3 + 1"
      have y: "y0 - 1 = Y"
        using True by (simp add: y0_def Y_def)
      have dby: "days_before_year Y = 146097 * a + 36524 * b + 1461 * c + 365 * 3"
        unfolding Y_def using b(1) b3 c by (intro days_before_year_cycles) simp_all
      have "is_leap Y \<longleftrightarrow> (3::int) = 3 \<and> (c \<noteq> 24 \<or> b = 3)"
        unfolding Y_def using b(1) b3 c by (intro is_leap_cycles) simp_all
      with c23 have leap: "is_leap Y" by simp
      have "ymd2ord Y 12 31 = n0"
        by (simp add: ymd2ord_def days_before_month_def dby leap DAYS_BEFORE_MONTH_def total True z)
      then show ?thesis
        using True by (simp add: ord y)
    next
      case False
      with k have k3: "k \<le> 3" by simp
      define L where "L \<longleftrightarrow> k = 3 \<and> (c \<noteq> 24 \<or> b = 3)"
      have y: "y0 = 400 * a + 100 * b + 4 * c + k + 1" by (simp add: y0_def)
      have dby: "days_before_year y0 = 146097 * a + 36524 * b + 1461 * c + 365 * k"
        unfolding y using b(1) b3 c k(1) k3 by (rule days_before_year_cycles)
      have leap: "is_leap y0 \<longleftrightarrow> L"
        unfolding y L_def using b(1) b3 c k(1) k3 by (rule is_leap_cycles)
      define m where "m = (r4 + 50) div 32"
      define preceding where
        "preceding = DAYS_BEFORE_MONTH ! nat m + (if m > 2 \<and> L then 1 else 0)"
      define d1 where
        "d1 = r4 - (preceding - (DAYS_IN_MONTH ! nat (m - 1)
                                 + (if m - 1 = 2 \<and> L then 1 else 0))) + 1"
      define d2 where "d2 = r4 - preceding + 1"
      have ord': "ord2ymd n0 = (if preceding > r4 then (y0, m - 1, d1) else (y0, m, d2))"
        using False nb
        by (simp add: ord Let_def m_def preceding_def d1_def d2_def L_def)
      have md: "(if preceding > r4
                 then DAYS_BEFORE_MONTH ! nat (m - 1) + (if m - 1 > 2 \<and> L then 1 else 0) + d1
                 else DAYS_BEFORE_MONTH ! nat m + (if m > 2 \<and> L then 1 else 0) + d2)
                = r4 + 1"
        unfolding m_def preceding_def d1_def d2_def by (rule month_and_day [OF r4])
      show ?thesis
      proof (cases "preceding > r4")
        case True
        with md have "days_before_month y0 (m - 1) + d1 = r4 + 1"
          by (simp add: days_before_month_def leap)
        with True show ?thesis
          unfolding ord' by (simp add: ymd2ord_def dby total)
      next
        case False
        with md have "days_before_month y0 m + d2 = r4 + 1"
          by (simp add: days_before_month_def leap)
        with False show ?thesis
          unfolding ord' by (simp add: ymd2ord_def dby total)
      qed
    qed
  qed
qed


text \<open>Addition moves the point on the time line by the \<open>timedelta\<close> and keeps the
  offset.\<close>

lemma time_of_day_split:
  fixes r :: int
  shows "((r div 1000000 div 3600) * 3600 + (r div 1000000 mod 3600 div 60) * 60
          + r div 1000000 mod 3600 mod 60) * 1000000 + r mod 1000000 = r"
proof -
  have "r div 1000000 mod 3600 div 60 * 60 + r div 1000000 mod 3600 mod 60
        = r div 1000000 mod 3600"
    by (rule div_mult_mod_eq)
  moreover have "r div 1000000 div 3600 * 3600 + r div 1000000 mod 3600 = r div 1000000"
    by (rule div_mult_mod_eq)
  moreover have "r div 1000000 * 1000000 + r mod 1000000 = r"
    by (rule div_mult_mod_eq)
  ultimately show ?thesis by (simp add: add.assoc)
qed

lemma to_us_datetime_add:
  assumes "datetime_add dt td = Inr dt'"
  shows "to_us dt' = to_us dt + td" and "tzinfo dt' = tzinfo dt"
proof -
  define delta where "delta = to_us dt + td"
  define days where "days = delta div 86400000000"
  define r where "r = delta mod 86400000000"
  from assms have range: "0 < days" "days \<le> MAXORDINAL"
    by (auto simp: datetime_add_def exn_bind_def timedelta_new_def Let_def delta_def days_def
        US_PER_DAY_def split: if_splits prod.splits)
  obtain y m d where ymd: "ord2ymd days = (y, m, d)"
    by (cases "ord2ymd days") auto
  have us: "delta mod 1000000 = r mod 1000000"
    unfolding r_def by (simp add: mod_mod_cancel)
  from assms ymd have dt': "dt' = \<lparr>year = y, month = m, day = d,
       hour = r div 1000000 div 3600, minute = r div 1000000 mod 3600 div 60,
       second = r div 1000000 mod 3600 mod 60, microsecond = r mod 1000000,
       tzinfo = tzinfo dt\<rparr>"
    by (auto simp: datetime_add_def exn_bind_def timedelta_new_def Let_def delta_def [symmetric]
        days_def [symmetric] r_def [symmetric] us US_PER_DAY_def US_PER_SECOND_def
        split: if_splits)
  from ymd2ord_ord2ymd [of days] range ymd have ord: "ymd2ord y m d = days"
    by simp
  have "to_us dt' = days * 86400000000 + r"
    using time_of_day_split [of r]
    by (simp add: dt' to_us_def toordinal_def ord time_of_day_us_def US_PER_DAY_def
        US_PER_SECOND_def)
  also have "\<dots> = delta"
    unfolding days_def r_def by (rule div_mult_mod_eq)
  finally show "to_us dt' = to_us dt + td" by (simp add: delta_def)
  show "tzinfo dt' = tzinfo dt" by (simp add: dt')
qed

lemma timedelta_minutes_in_range:
  "timedelta_minutes v = Inr td \<Longrightarrow> timedelta_new td = Inr td"
  by (cases v) (auto simp: timedelta_new_def split: if_splits)

lemma datetime_sub_after_add:
  assumes "datetime_add a td = Inr b" "timedelta_new td = Inr td"
  shows "datetime_sub b a = Inr td"
  using to_us_datetime_add [OF assms(1)] assms(2)
  by (simp add: datetime_sub_def exn_bind_def)

lemma datetime_sub_after_sub:
  assumes "datetime_sub_timedelta b td = Inr a" "timedelta_new td = Inr td"
  shows "datetime_sub b a = Inr td"
proof -
  from assms(1) have "datetime_add b (- td) = Inr a"
    by (auto simp: datetime_sub_timedelta_def exn_bind_def timedelta_new_def split: if_splits)
  from to_us_datetime_add [OF this] assms(2) show ?thesis
    by (simp add: datetime_sub_def exn_bind_def)
qed


text \<open>
  Claim C1. \<open>create_session\<close> resolves the window from which of \<open>start_time\<close> and
  \<open>end_time\<close> are given, where the empty string and \<open>None\<close> count as not given: with
  both it returns exactly the two parsed times; with the start alone the end is the
  start plus \<open>duration_minutes\<close>; with the end alone the start is the end minus
  \<open>duration_minutes\<close>; with neither the start is the current time and the end is the
  start plus \<open>duration_minutes\<close>. It returns a window exactly when the parses and the
  addition succeed. Whenever at most one bound is given and a window is returned, end
  minus start is \<open>duration_minutes\<close> minutes. A call without \<open>duration_minutes\<close> is a
  call with 90.
\<close>

theorem create_session_window_resolution:
  "(truthy start_time \<and> truthy end_time \<longrightarrow>
      (create_session_window e duration_minutes start_time end_time = Inr (a, b)
       \<longleftrightarrow> parse_time_string e start_time = Inr a \<and> parse_time_string e end_time = Inr b))
   \<and> (truthy start_time \<and> \<not> truthy end_time \<longrightarrow>
      (create_session_window e duration_minutes start_time end_time = Inr (a, b)
       \<longleftrightarrow> parse_time_string e start_time = Inr a
           \<and> (\<exists>td. timedelta_minutes duration_minutes = Inr td \<and> datetime_add a td = Inr b)))
   \<and> (\<not> truthy start_time \<and> truthy end_time \<longrightarrow>
      (create_session_window e duration_minutes start_time end_time = Inr (a, b)
       \<longleftrightarrow> parse_time_string e end_time = Inr b
           \<and> (\<exists>td. timedelta_minutes duration_minutes = Inr td
                    \<and> datetime_sub_timedelta b td = Inr a)))
   \<and> (\<not> truthy start_time \<and> \<not> truthy end_time \<longrightarrow>
      (create_session_window e duration_minutes start_time end_time = Inr (a, b)
       \<longleftrightarrow> a = now e
           \<and> (\<exists>td. timedelta_minutes duration_minutes = Inr td \<and> datetime_add (now e) td = Inr b)))
   \<and> (\<forall>n. \<not> (truthy start_time \<and> truthy end_time) \<and> duration_minutes = VInt n
          \<and> create_session_window e duration_minutes start_time end_time = Inr (a, b) \<longrightarrow>
        datetime_sub b a = Inr (n * 60 * US_PER_SECOND))
   \<and> create_session_request e ty title description None start_time end_time
       = create_session_request e ty title description (Some (VInt 90)) start_time end_time"
proof (intro conjI impI allI)
  assume "truthy start_time \<and> truthy end_time"
  then show "create_session_window e duration_minutes start_time end_time = Inr (a, b)
       \<longleftrightarrow> parse_time_string e start_time = Inr a \<and> parse_time_string e end_time = Inr b"
    by (auto simp: create_session_window_def exn_bind_def split: sum.splits)
next
  assume "truthy start_time \<and> \<not> truthy end_time"
  then show "create_session_window e duration_minutes start_time end_time = Inr (a, b)
       \<longleftrightarrow> parse_time_string e start_time = Inr a
           \<and> (\<exists>td. timedelta_minutes duration_minutes = Inr td \<and> datetime_add a td = Inr b)"
    by (auto simp: create_session_window_def exn_bind_def split: sum.splits)
next
  assume "\<not> truthy start_time \<and> truthy end_time"
  then show "create_session_window e duration_minutes start_time end_time = Inr (a, b)
       \<longleftrightarrow> parse_time_string e end_time = Inr b
           \<and> (\<exists>td. timedelta_minutes duration_minutes = Inr td
                    \<and> datetime_sub_timedelta b td = Inr a)"
    by (auto simp: create_session_window_def exn_bind_def split: sum.splits)
next
  assume "\<not> truthy start_time \<and> \<not> truthy end_time"
  then show "create_session_window e duration_minutes start_time end_time = Inr (a, b)
       \<longleftrightarrow> a = now e
           \<and> (\<exists>td. timedelta_minutes duration_minutes = Inr td \<and> datetime_add (now e) td = Inr b)"
    by (auto simp: create_session_window_def exn_bind_def Let_def split: sum.splits)
next
  fix n
  assume h: "\<not> (truthy start_time \<and> truthy end_time) \<and> duration_minutes = VInt n
          \<and> create_session_window e duration_minutes start_time end_time = Inr (a, b)"
  define td where "td = n * 60 * US_PER_SECOND"
  from h have "datetime_add a td = Inr b \<or> datetime_sub_timedelta b td = Inr a"
    and td: "timedelta_new td = Inr td"
    by (auto simp: create_session_window_def exn_bind_def Let_def td_def timedelta_new_def
        split: sum.splits if_splits)
  then show "datetime_sub b a = Inr (n * 60 * US_PER_SECOND)"
    using datetime_sub_after_add datetime_sub_after_sub unfolding td_def by blast
next
  show "create_session_request e ty title description None start_time end_time
       = create_session_request e ty title description (Some (VInt 90)) start_time end_time"
    by (simp add: create_session_request_def default_def)
qed


lemma parse_half_past_ten:
  "parse_time_string e (VStr ''2024-07-21T10:30:00Z'') = Inr half_past_ten"
  by (simp add: parse_time_string_def half_past_ten_def nine_o_clock_def exn_bind_def
      strptime_eval)

lemma ninety_minutes: "timedelta_minutes (VInt 90) = Inr (90 * 60 * US_PER_SECOND)"
  by (simp add: timedelta_new_def US_PER_DAY_def US_PER_SECOND_def)

lemma nine_o_clock_plus_90:
  "datetime_add nine_o_clock (90 * 60 * US_PER_SECOND) = Inr half_past_ten"
  by (simp add: half_past_ten_def nine_o_clock_def datetime_eval)

lemma half_past_ten_minus_90:
  "datetime_sub_timedelta half_past_ten (90 * 60 * US_PER_SECOND) = Inr nine_o_clock"
  by (simp add: half_past_ten_def nine_o_clock_def datetime_eval)

lemma sample_now_plus_90:
  "datetime_add sample_now (90 * 60 * US_PER_SECOND) = Inr (sample_now\<lparr>hour := 10, minute := 30\<rparr>)"
  by (simp add: sample_now_def datetime_eval)

text \<open>Instances of C1: the four combinations for a session from 09:00 to 10:30, and the
  difference of its bounds.\<close>

theorem create_session_window_resolution_witness:
  "create_session_window (sample_env sample_upstream) (VInt 90)
       (VStr ''2024-07-21 09:00'') (VStr ''2024-07-21T10:30:00Z'')
     = Inr (nine_o_clock, half_past_ten)
   \<and> create_session_window (sample_env sample_upstream) (VInt 90) (VStr ''2024-07-21 09:00'') VNone
     = Inr (nine_o_clock, half_past_ten)
   \<and> create_session_window (sample_env sample_upstream) (VInt 90) VNone
       (VStr ''2024-07-21T10:30:00Z'')
     = Inr (nine_o_clock, half_past_ten)
   \<and> create_session_window (sample_env sample_upstream) (VInt 90) VNone VNone
     = Inr (sample_now, sample_now\<lparr>hour := 10, minute := 30\<rparr>)
   \<and> datetime_sub half_past_ten nine_o_clock = Inr (90 * 60 * US_PER_SECOND)"
proof -
  let ?e = "sample_env sample_upstream"
  let ?st = "VStr ''2024-07-21 09:00''"
  let ?en = "VStr ''2024-07-21T10:30:00Z''"
  have now: "now ?e = sample_now" by (simp add: sample_env_def)
  have both: "create_session_window ?e (VInt 90) ?st ?en = Inr (nine_o_clock, half_past_ten)"
    using create_session_window_resolution
            [where e = ?e and start_time = ?st and end_time = ?en and duration_minutes = "VInt 90"
               and a = nine_o_clock and b = half_past_ten, THEN conjunct1]
      parse_nine_o_clock parse_half_past_ten
    by simp
  have start: "create_session_window ?e (VInt 90) ?st VNone = Inr (nine_o_clock, half_past_ten)"
    using create_session_window_resolution
            [where e = ?e and start_time = ?st and end_time = VNone and duration_minutes = "VInt 90"
               and a = nine_o_clock and b = half_past_ten, THEN conjunct2, THEN conjunct1]
      parse_nine_o_clock ninety_minutes nine_o_clock_plus_90
    by simp
  have "end": "create_session_window ?e (VInt 90) VNone ?en = Inr (nine_o_clock, half_past_ten)"
    using create_session_window_resolution
            [where e = ?e and start_time = VNone and end_time = ?en and duration_minutes = "VInt 90"
               and a = nine_o_clock and b = half_past_ten,
             THEN conjunct2, THEN conjunct2, THEN conjunct1]
      parse_half_past_ten ninety_minutes half_past_ten_minus_90
    by simp
  have neither: "create_session_window ?e (VInt 90) VNone VNone
       = Inr (sample_now, sample_now\<lparr>hour := 10, minute := 30\<rparr>)"
    using create_session_window_resolution
            [where e = ?e and start_time = VNone and end_time = VNone and duration_minutes = "VInt 90"
               and a = sample_now and b = "sample_now\<lparr>hour := 10, minute := 30\<rparr>",
             THEN conjunct2, THEN conjunct2, THEN conjunct2, THEN conjunct1]
      now ninety_minutes sample_now_plus_90
    by simp
  have diff: "datetime_sub half_past_ten nine_o_clock = Inr (90 * 60 * US_PER_SECOND)"
    using create_session_window_resolution
            [where e = ?e and start_time = ?st and end_time = VNone and duration_minutes = "VInt 90"
               and a = nine_o_clock and b = half_past_ten,
             THEN conjunct2, THEN conjunct2, THEN conjunct2, THEN conjunct2, THEN conjunct1,
             rule_format, of 90]
      start
    by simp
  from both start "end" neither diff show ?thesis by blast
qed


subsection \<open>The time texts that \<open>parse_time_string\<close> accepts\<close>

text \<open>The ways a field of the format can match two of the digits \<open>0\<close> to \<open>9\<close>.\<close>

lemma decimal_ascii: "48 \<le> a \<Longrightarrow> a \<le> 57 \<Longrightarrow> decimal a = Some (a - 48)"
  by (simp add: decimal_def DIGIT_ZEROS_def)












































lemma range_decimal:
  "48 \<le> (of_char a :: nat) \<Longrightarrow> (of_char b :: nat) \<le> 57 \<Longrightarrow> in_class n (Range a b)
   \<Longrightarrow> decimal n \<noteq> None"
  by (simp add: decimal_ascii)














text \<open>The parser reads more than the digits \<open>0\<close> to \<open>9\<close> and the blank: here the
  separator is U+3000 and the last digit of the seconds is U+0665.\<close>

lemma parse_time_string_other_digits:
  "parse_time_string e
     (VStr (''2024-07-21'' @ [CHR 0xE3, CHR 0x80, CHR 0x80] @ ''09:00:0'' @ [CHR 0xD9, CHR 0xA5]))
   = Inr (nine_o_clock\<lparr>second := 5\<rparr>)"
  by (simp add: parse_time_string_def nine_o_clock_def exn_bind_def strptime_eval)




end
